theory Spec2Isabelle
  imports Complex_Main "HOL-Library.Word"
begin

section \<open>Numbers\<close>

text \<open>
  The TypeScript sources compute with JavaScript numbers (IEEE doubles) and the vertex
  shader with GLSL floats. Throughout this development a number is a \<^typ>\<open>real\<close>:
  arithmetic is exact, there is no rounding, no overflow and no NaN. Counts and pixel
  coordinates, which the sources only ever hold as integers, are \<^typ>\<open>nat\<close> or
  \<^typ>\<open>int\<close>.
\<close>

section \<open>Gesture classifier (GestureHandler.predictWebcam)\<close>

text \<open>
  One landmark of the hand-landmark model: a point with fields x, y and z. The field
  names carry a prefix, since a constant named x would capture the variables of every
  later statement.
\<close>

record landmark =
  lm_x :: real
  lm_y :: real
  lm_z :: real

text \<open>The interface HandData of types.ts (fields x, y, z prefixed for the same reason).\<close>

record HandData =
  isActive :: bool
  hand_x :: real
  hand_y :: real
  hand_z :: real
  isPinching :: bool
  isClosed :: bool

text \<open>
  The errors the code throws: reading a field of a landmark the detector did not deliver
  is a TypeError; \<open>processImage\<close> throws when the canvas gives no 2D context.
\<close>

datatype error = TypeError | CanvasContextError

text \<open>Lines 88 to 94: the pinch distance between the index tip (8) and the thumb tip (4).\<close>

definition pinchDist :: "landmark list \<Rightarrow> real" where
  "pinchDist landmarks =
     (let indexTip = landmarks ! 8;
          thumbTip = landmarks ! 4;
          dx = lm_x indexTip - lm_x thumbTip;
          dy = lm_y indexTip - lm_y thumbTip
      in sqrt (dx * dx + dy * dy))"

definition tips :: "nat list" where
  "tips = [8, 12, 16, 20]"

definition mcps :: "nat list" where
  "mcps = [5, 9, 13, 17]"

text \<open>Lines 104 to 113: the body of the loop over the four fingers, for finger \<open>i\<close>.\<close>

definition fingerStep :: "landmark list \<Rightarrow> nat \<Rightarrow> nat \<Rightarrow> nat" where
  "fingerStep landmarks fingersClosedCount i =
     (let wrist = landmarks ! 0;
          tip = landmarks ! (tips ! i);
          mcp = landmarks ! (mcps ! i);
          tipDist = sqrt ((lm_x tip - lm_x wrist)\<^sup>2 + (lm_y tip - lm_y wrist)\<^sup>2);
          mcpDist = sqrt ((lm_x mcp - lm_x wrist)\<^sup>2 + (lm_y mcp - lm_y wrist)\<^sup>2)
      in if tipDist < mcpDist * 1.1 then fingersClosedCount + 1 else fingersClosedCount)"

text \<open>The loop \<open>for (let i = 0; i < 4; i++)\<close>, started at any \<open>i\<close>.\<close>

function fingerLoop :: "landmark list \<Rightarrow> nat \<Rightarrow> nat \<Rightarrow> nat" where
  "fingerLoop landmarks i fingersClosedCount =
     (if i < 4 then fingerLoop landmarks (i + 1) (fingerStep landmarks fingersClosedCount i)
      else fingersClosedCount)"
  by pat_completeness auto
termination
  by (relation "measure (\<lambda>(landmarks, i, c). 4 - i)") auto

text \<open>
  Lines 86 to 132, for a hand whose landmarks are all there: the value assigned to
  \<open>handDataRef.current\<close>.
\<close>

definition classify :: "landmark list \<Rightarrow> HandData" where
  "classify landmarks =
     (let palmX = lm_x (landmarks ! 9);
          palmY = lm_y (landmarks ! 9);
          ndcX = - (palmX * 2 - 1);
          ndcY = - (palmY * 2 - 1)
      in \<lparr> isActive = True,
           hand_x = ndcX,
           hand_y = ndcY,
           hand_z = lm_z (landmarks ! 9),
           isPinching = (pinchDist landmarks < 0.05),
           isClosed = (fingerLoop landmarks 0 0 \<ge> 3) \<rparr>)"

text \<open>
  The branch of a detected hand. The code reads the landmarks 0, 4, 5, 8, 9, 12, 13, 16,
  17 and 20; with fewer than 21 landmarks one of these reads yields \<open>undefined\<close> and the
  field access on it throws.
\<close>

definition detected :: "landmark list \<Rightarrow> error + HandData" where
  "detected landmarks =
     (if length landmarks < 21 then Inl TypeError else Inr (classify landmarks))"

text \<open>
  The state \<open>predictWebcam\<close> works on: the time stamp of the last processed video frame
  and the shared hand data.
\<close>

record GestureState =
  lastVideoTime :: real
  handData :: HandData

text \<open>
  One call of \<open>predictWebcam\<close>. \<open>refsReady\<close> says that the landmarker and the video
  element exist, \<open>currentTime\<close> is the video's time stamp, \<open>results\<close> is the field
  \<open>landmarks\<close> of the detector's answer for this frame (\<open>None\<close> when it is missing),
  one landmark list per detected hand.
\<close>

definition predictWebcam ::
  "bool \<Rightarrow> real \<Rightarrow> landmark list list option \<Rightarrow> GestureState \<Rightarrow> error + GestureState" where
  "predictWebcam refsReady currentTime results st =
     (if \<not> refsReady then Inr st
      else if lastVideoTime st \<noteq> currentTime then
        (case results of
           Some (landmarks # others) \<Rightarrow>
             (case detected landmarks of
                Inl e \<Rightarrow> Inl e
              | Inr h \<Rightarrow> Inr \<lparr> lastVideoTime = currentTime, handData = h \<rparr>)
         | _ \<Rightarrow>
             Inr \<lparr> lastVideoTime = currentTime,
                   handData = (handData st) \<lparr> isActive := False \<rparr> \<rparr>)
      else Inr st)"

section \<open>Field state machine (NebulaScene.animate)\<close>

text \<open>The four refs of the scene that hold the blend factors and their targets.\<close>

record FieldState =
  currentExplosion :: real
  targetExplosion :: real
  currentBlackHole :: real
  targetBlackHole :: real

text \<open>
  Lines 370 to 392 of one animation frame: the targets and the smoothing rate are set
  from the hand data, then both blend factors move towards their targets. The rest of
  the frame copies the factors into shader uniforms and renders; it writes none of the
  four refs.
\<close>

definition animate :: "HandData \<Rightarrow> FieldState \<Rightarrow> FieldState" where
  "animate hand st =
     (let (tBlackHole, tExplosion, lerpSpeed) =
            (if isActive hand then
               (if isClosed hand then (1.0, 0.0, 0.05) else (0.0, 1.0, 0.03))
             else (0.0, 0.0, 0.02 :: real))
      in \<lparr> currentExplosion =
             currentExplosion st + (tExplosion - currentExplosion st) * lerpSpeed,
           targetExplosion = tExplosion,
           currentBlackHole =
             currentBlackHole st + (tBlackHole - currentBlackHole st) * lerpSpeed,
           targetBlackHole = tBlackHole \<rparr>)"

text \<open>\<open>n\<close> frames in a row under the same hand data.\<close>

fun frames :: "nat \<Rightarrow> HandData \<Rightarrow> FieldState \<Rightarrow> FieldState" where
  "frames 0 hand st = st"
| "frames (Suc n) hand st = animate hand (frames n hand st)"

section \<open>Image-to-particle sampler (types.ts, constants.ts, imageProcessing.ts)\<close>

datatype DepthMode =
  Brightness | InverseBrightness | Hue | Saturation | Perlin | Radial | Layered

datatype ParticleShape = Circle | Square | Star | Snowflake

datatype InteractionType = repulse | attract

text \<open>
  The interface AppSettings. \<open>maxParticles\<close> is a count and is held as an integer;
  the other numeric fields are numbers.
\<close>

record AppSettings =
  density :: real
  threshold :: real
  maxParticles :: int
  baseSize :: real
  depthMode :: DepthMode
  depthRange :: real
  depthInvert :: bool
  noiseStrength :: real
  bloomStrength :: real
  particleShape :: ParticleShape
  colorSaturation :: real
  interactionRadius :: real
  interactionStrength :: real
  interactionType :: InteractionType
  damping :: real
  returnSpeed :: real
  autoRotate :: bool
  autoRotateSpeed :: real

definition DEFAULT_SETTINGS :: AppSettings where
  "DEFAULT_SETTINGS =
     \<lparr> density = 2, threshold = 30, maxParticles = 200000, baseSize = 1.5,
       depthMode = Brightness, depthRange = 400, depthInvert = False, noiseStrength = 40,
       bloomStrength = 1.5, particleShape = Circle, colorSaturation = 1.2,
       interactionRadius = 150, interactionStrength = 80, interactionType = repulse,
       damping = 0.9, returnSpeed = 1.5, autoRotate = True, autoRotateSpeed = 0.3 \<rparr>"

text \<open>
  The pixels read back from the canvas (\<open>ctx.getImageData\<close>): width, height and the
  RGBA bytes, row by row, four per pixel. Lines 39 to 57 of \<open>processImage\<close> draw the
  image into a canvas of at most 2048 by 2048 pixels and read it back; the canvas
  resamples the image by means of the browser, and the model starts at the pixels read.
\<close>

record ImageData =
  width :: nat
  height :: nat
  data :: "8 word list"

record ProcessedData =
  positions :: "real list"
  colors :: "real list"
  sizes :: "real list"
  count :: nat

text \<open>
  The variables the two loops write: the three preallocated typed arrays and the index
  of the next particle. A typed array ignores a write outside its bounds, as
  \<open>xs[i := v]\<close> does. An entry is the number written; the rounding of a
  \<open>Float32Array\<close> to single precision is left out.
\<close>

record Buffers =
  buf_positions :: "real list"
  buf_colors :: "real list"
  buf_sizes :: "real list"
  particleIndex :: nat

definition noise :: "real \<Rightarrow> real \<Rightarrow> real" where
  "noise x y =
     (let n = sin (x * 12.9898 + y * 78.233) * 43758.5453123
      in n - of_int \<lfloor>n\<rfloor>)"

text \<open>
  \<open>switch (max)\<close> compares with \<open>===\<close> and takes the first case that matches, in the
  order r, g, b.
\<close>

definition rgbToHsl :: "real \<Rightarrow> real \<Rightarrow> real \<Rightarrow> real \<times> real \<times> real" where
  "rgbToHsl r0 g0 b0 =
     (let r = r0 / 255; g = g0 / 255; b = b0 / 255;
          mx = max (max r g) b; mn = min (min r g) b;
          l = (mx + mn) / 2
      in if mx \<noteq> mn then
           (let d = mx - mn;
                s = (if l > 0.5 then d / (2 - mx - mn) else d / (mx + mn));
                h = (if mx = r then (g - b) / d + (if g < b then 6 else 0)
                     else if mx = g then (b - r) / d + 2
                     else if mx = b then (r - g) / d + 4
                     else 0)
            in (h / 6, s, l))
         else (0, 0, l))"

text \<open>Line 61: \<open>step = Math.max(1, Math.floor(settings.density))\<close>.\<close>

definition step :: "AppSettings \<Rightarrow> nat" where
  "step settings = nat (max 1 \<lfloor>density settings\<rfloor>)"

text \<open>Lines 62 and 63: the number of particles the buffers are allocated for.\<close>

definition estimatedCount :: "AppSettings \<Rightarrow> ImageData \<Rightarrow> int" where
  "estimatedCount settings img =
     (let estimatedCount =
            \<lceil>real (width img * height img) / real (step settings * step settings)\<rceil>
      in if maxParticles settings > 0 then min estimatedCount (maxParticles settings)
         else estimatedCount)"

text \<open>One byte of the pixel data, as a number.\<close>

definition channel :: "ImageData \<Rightarrow> nat \<Rightarrow> real" where
  "channel img i = real (unat (data img ! i))"

text \<open>
  Lines 93 to 131: the depth of the pixel at column \<open>x\<close> and row \<open>y\<close> with the colour
  \<open>r\<close>, \<open>g\<close>, \<open>b\<close>, the invert flag applied. The \<open>default\<close> branch of the switch is the
  one of \<open>DepthMode.Brightness\<close>; the enumeration has no further value.
\<close>

definition depthValue ::
  "AppSettings \<Rightarrow> ImageData \<Rightarrow> nat \<Rightarrow> nat \<Rightarrow> real \<Rightarrow> real \<Rightarrow> real \<Rightarrow> real" where
  "depthValue settings img x y r g b =
     (let cx = real (width img) / 2;
          cy = real (height img) / 2;
          brightness = 0.299 * r + 0.587 * g + 0.114 * b;
          normalizedBrightness = brightness / 255;
          z = (case depthMode settings of
                 InverseBrightness \<Rightarrow> (1.0 - normalizedBrightness) * depthRange settings
               | Hue \<Rightarrow> (case rgbToHsl r g b of (h, s, l) \<Rightarrow> h * depthRange settings)
               | Saturation \<Rightarrow> (case rgbToHsl r g b of (h, s, l) \<Rightarrow> s * depthRange settings)
               | Perlin \<Rightarrow>
                   (let noiseVal = noise (real x * 0.01) (real y * 0.01)
                    in normalizedBrightness * (depthRange settings * 0.5)
                         + noiseVal * noiseStrength settings)
               | Radial \<Rightarrow>
                   (let dx = real x - cx;
                        dy = real y - cy;
                        dist = sqrt (dx * dx + dy * dy);
                        maxDist = sqrt (cx * cx + cy * cy)
                    in (1.0 - (dist / maxDist)) * depthRange settings)
               | Layered \<Rightarrow>
                   (if brightness < 64 then 0
                    else if brightness < 128 then depthRange settings * 0.33
                    else if brightness < 192 then depthRange settings * 0.66
                    else depthRange settings)
               | Brightness \<Rightarrow> normalizedBrightness * depthRange settings)
      in if depthInvert settings then - z else z)"

text \<open>
  Lines 80 to 148: the body of the inner loop after the test for a full buffer. A pixel
  below the threshold or with alpha below 50 leaves the buffers as they are
  (\<open>continue\<close>); any other pixel is written at \<open>particleIndex\<close>.
\<close>

definition pixelStep :: "AppSettings \<Rightarrow> ImageData \<Rightarrow> nat \<Rightarrow> nat \<Rightarrow> Buffers \<Rightarrow> Buffers" where
  "pixelStep settings img y x st =
     (let cx = real (width img) / 2;
          cy = real (height img) / 2;
          i = (y * width img + x) * 4;
          r = channel img i;
          g = channel img (i + 1);
          b = channel img (i + 2);
          a = channel img (i + 3);
          brightness = 0.299 * r + 0.587 * g + 0.114 * b
      in if brightness < threshold settings \<or> a < 50 then st
         else
           (let normalizedBrightness = brightness / 255;
                z = depthValue settings img x y r g b;
                posX = real x - cx;
                posY = - (real y - cy);
                k = particleIndex st
            in \<lparr> buf_positions =
                   (buf_positions st) [k * 3 := posX, k * 3 + 1 := posY, k * 3 + 2 := z],
                 buf_colors =
                   (buf_colors st) [k * 3 := r / 255, k * 3 + 1 := g / 255, k * 3 + 2 := b / 255],
                 buf_sizes = (buf_sizes st) [k := normalizedBrightness],
                 particleIndex = k + 1 \<rparr>))"

text \<open>
  The inner loop \<open>for (let x = 0; x < width; x += step)\<close>, started at any \<open>x\<close>. Its
  \<open>break\<close> leaves this loop only.
\<close>

function rowLoop :: "AppSettings \<Rightarrow> ImageData \<Rightarrow> nat \<Rightarrow> nat \<Rightarrow> Buffers \<Rightarrow> Buffers" where
  "rowLoop settings img y x st =
     (if x < width img then
        (if int (particleIndex st) \<ge> estimatedCount settings img then st
         else rowLoop settings img y (x + step settings) (pixelStep settings img y x st))
      else st)"
  by pat_completeness auto
termination
  by (relation "measure (\<lambda>(settings, img, y, x, st). width img - x)")
    (auto simp: step_def)

text \<open>The outer loop \<open>for (let y = 0; y < height; y += step)\<close>, started at any \<open>y\<close>.\<close>

function imageLoop :: "AppSettings \<Rightarrow> ImageData \<Rightarrow> nat \<Rightarrow> Buffers \<Rightarrow> Buffers" where
  "imageLoop settings img y st =
     (if y < height img then
        imageLoop settings img (y + step settings) (rowLoop settings img y 0 st)
      else st)"
  by pat_completeness auto
termination
  by (relation "measure (\<lambda>(settings, img, y, st). height img - y)")
    (auto simp: step_def)

text \<open>
  Lines 58 to 157: allocation, the two loops, and the result trimmed to the particles
  written (\<open>slice\<close> stops at the end of the array, as \<open>take\<close> does).
\<close>

definition sampleImage :: "ImageData \<Rightarrow> AppSettings \<Rightarrow> ProcessedData" where
  "sampleImage img settings =
     (let n = nat (estimatedCount settings img);
          st = imageLoop settings img 0
                 \<lparr> buf_positions = replicate (n * 3) 0, buf_colors = replicate (n * 3) 0,
                   buf_sizes = replicate n 0, particleIndex = 0 \<rparr>
      in \<lparr> positions = take (particleIndex st * 3) (buf_positions st),
           colors = take (particleIndex st * 3) (buf_colors st),
           sizes = take (particleIndex st) (buf_sizes st),
           count = particleIndex st \<rparr>)"

text \<open>
  \<open>processImage\<close>, from the 2D context on: \<open>ctx\<close> is \<open>None\<close> when the canvas gives no
  context (line 54 throws), else the pixels read back from it.
\<close>

definition processImage :: "ImageData option \<Rightarrow> AppSettings \<Rightarrow> error + ProcessedData" where
  "processImage ctx settings =
     (case ctx of
        None \<Rightarrow> Inl CanvasContextError
      | Some img \<Rightarrow> Inr (sampleImage img settings))"

section \<open>Per-particle transform (the vertex shader of NebulaScene.tsx)\<close>

subsection \<open>Vectors and the built-in functions of the shading language\<close>

text \<open>
  The vector types of the shading language with their components x, y, z, w, and the
  component-wise arithmetic the language gives them. An operation between a vector and a
  scalar applies the scalar to every component; it is written here with the vector
  \<open>splat k\<close> whose components are all \<open>k\<close>.
\<close>

datatype vec2 = vec2 (v2x: real) (v2y: real)
datatype vec3 = vec3 (v3x: real) (v3y: real) (v3z: real)
datatype vec4 = vec4 (v4x: real) (v4y: real) (v4z: real) (v4w: real)

instantiation vec2 :: "{plus, minus, times, uminus}"
begin
definition plus_vec2 :: "vec2 \<Rightarrow> vec2 \<Rightarrow> vec2" where
  "plus_vec2 a b = vec2 (v2x a + v2x b) (v2y a + v2y b)"
definition minus_vec2 :: "vec2 \<Rightarrow> vec2 \<Rightarrow> vec2" where
  "minus_vec2 a b = vec2 (v2x a - v2x b) (v2y a - v2y b)"
definition times_vec2 :: "vec2 \<Rightarrow> vec2 \<Rightarrow> vec2" where
  "times_vec2 a b = vec2 (v2x a * v2x b) (v2y a * v2y b)"
definition uminus_vec2 :: "vec2 \<Rightarrow> vec2" where
  "uminus_vec2 a = vec2 (- v2x a) (- v2y a)"
instance ..
end

instantiation vec3 :: "{plus, minus, times, uminus}"
begin
definition plus_vec3 :: "vec3 \<Rightarrow> vec3 \<Rightarrow> vec3" where
  "plus_vec3 a b = vec3 (v3x a + v3x b) (v3y a + v3y b) (v3z a + v3z b)"
definition minus_vec3 :: "vec3 \<Rightarrow> vec3 \<Rightarrow> vec3" where
  "minus_vec3 a b = vec3 (v3x a - v3x b) (v3y a - v3y b) (v3z a - v3z b)"
definition times_vec3 :: "vec3 \<Rightarrow> vec3 \<Rightarrow> vec3" where
  "times_vec3 a b = vec3 (v3x a * v3x b) (v3y a * v3y b) (v3z a * v3z b)"
definition uminus_vec3 :: "vec3 \<Rightarrow> vec3" where
  "uminus_vec3 a = vec3 (- v3x a) (- v3y a) (- v3z a)"
instance ..
end

instantiation vec4 :: "{plus, minus, times, uminus}"
begin
definition plus_vec4 :: "vec4 \<Rightarrow> vec4 \<Rightarrow> vec4" where
  "plus_vec4 a b = vec4 (v4x a + v4x b) (v4y a + v4y b) (v4z a + v4z b) (v4w a + v4w b)"
definition minus_vec4 :: "vec4 \<Rightarrow> vec4 \<Rightarrow> vec4" where
  "minus_vec4 a b = vec4 (v4x a - v4x b) (v4y a - v4y b) (v4z a - v4z b) (v4w a - v4w b)"
definition times_vec4 :: "vec4 \<Rightarrow> vec4 \<Rightarrow> vec4" where
  "times_vec4 a b = vec4 (v4x a * v4x b) (v4y a * v4y b) (v4z a * v4z b) (v4w a * v4w b)"
definition uminus_vec4 :: "vec4 \<Rightarrow> vec4" where
  "uminus_vec4 a = vec4 (- v4x a) (- v4y a) (- v4z a) (- v4w a)"
instance ..
end

definition splat2 :: "real \<Rightarrow> vec2" where
  "splat2 k = vec2 k k"

definition splat3 :: "real \<Rightarrow> vec3" where
  "splat3 k = vec3 k k k"

definition splat4 :: "real \<Rightarrow> vec4" where
  "splat4 k = vec4 k k k k"

text \<open>
  The built-in functions used by the shader, on scalars and component-wise on vectors:
  \<open>floor\<close>, \<open>step\<close>, \<open>sign\<close>, \<open>mix\<close>, \<open>clamp\<close>, \<open>smoothstep\<close>, \<open>abs\<close>, \<open>min\<close>, \<open>max\<close>,
  \<open>dot\<close>, \<open>length\<close> and \<open>normalize\<close>; the suffix is the number of components. The
  language leaves \<open>normalize\<close> of the zero vector undefined; here it is the zero
  vector, division by zero being zero.
\<close>

definition floor1 :: "real \<Rightarrow> real" where
  "floor1 a = of_int \<lfloor>a\<rfloor>"

definition step1 :: "real \<Rightarrow> real \<Rightarrow> real" where
  "step1 edge a = (if a < edge then 0.0 else 1.0)"

definition sign :: "real \<Rightarrow> real" where
  "sign a = (if a < 0 then - 1.0 else if a = 0 then 0.0 else 1.0)"

definition mix :: "real \<Rightarrow> real \<Rightarrow> real \<Rightarrow> real" where
  "mix a b t = a * (1 - t) + b * t"

definition clamp :: "real \<Rightarrow> real \<Rightarrow> real \<Rightarrow> real" where
  "clamp a lo hi = min (max a lo) hi"

definition smoothstep :: "real \<Rightarrow> real \<Rightarrow> real \<Rightarrow> real" where
  "smoothstep edge0 edge1 a =
     (let t = clamp ((a - edge0) / (edge1 - edge0)) 0.0 1.0
      in t * t * (3.0 - 2.0 * t))"

definition floor3 :: "vec3 \<Rightarrow> vec3" where
  "floor3 a = vec3 (floor1 (v3x a)) (floor1 (v3y a)) (floor1 (v3z a))"

definition floor4 :: "vec4 \<Rightarrow> vec4" where
  "floor4 a = vec4 (floor1 (v4x a)) (floor1 (v4y a)) (floor1 (v4z a)) (floor1 (v4w a))"

definition abs4 :: "vec4 \<Rightarrow> vec4" where
  "abs4 a = vec4 (abs (v4x a)) (abs (v4y a)) (abs (v4z a)) (abs (v4w a))"

definition step3 :: "vec3 \<Rightarrow> vec3 \<Rightarrow> vec3" where
  "step3 edge a =
     vec3 (step1 (v3x edge) (v3x a)) (step1 (v3y edge) (v3y a)) (step1 (v3z edge) (v3z a))"

definition step4 :: "vec4 \<Rightarrow> vec4 \<Rightarrow> vec4" where
  "step4 edge a =
     vec4 (step1 (v4x edge) (v4x a)) (step1 (v4y edge) (v4y a))
          (step1 (v4z edge) (v4z a)) (step1 (v4w edge) (v4w a))"

definition min3 :: "vec3 \<Rightarrow> vec3 \<Rightarrow> vec3" where
  "min3 a b = vec3 (min (v3x a) (v3x b)) (min (v3y a) (v3y b)) (min (v3z a) (v3z b))"

definition max3 :: "vec3 \<Rightarrow> vec3 \<Rightarrow> vec3" where
  "max3 a b = vec3 (max (v3x a) (v3x b)) (max (v3y a) (v3y b)) (max (v3z a) (v3z b))"

definition max4 :: "vec4 \<Rightarrow> vec4 \<Rightarrow> vec4" where
  "max4 a b =
     vec4 (max (v4x a) (v4x b)) (max (v4y a) (v4y b)) (max (v4z a) (v4z b)) (max (v4w a) (v4w b))"

definition dot3 :: "vec3 \<Rightarrow> vec3 \<Rightarrow> real" where
  "dot3 a b = v3x a * v3x b + v3y a * v3y b + v3z a * v3z b"

definition dot4 :: "vec4 \<Rightarrow> vec4 \<Rightarrow> real" where
  "dot4 a b = v4x a * v4x b + v4y a * v4y b + v4z a * v4z b + v4w a * v4w b"

definition length2 :: "vec2 \<Rightarrow> real" where
  "length2 a = sqrt (v2x a * v2x a + v2y a * v2y a)"

definition length3 :: "vec3 \<Rightarrow> real" where
  "length3 a = sqrt (v3x a * v3x a + v3y a * v3y a + v3z a * v3z a)"

definition normalize2 :: "vec2 \<Rightarrow> vec2" where
  "normalize2 a = vec2 (v2x a / length2 a) (v2y a / length2 a)"

definition normalize3 :: "vec3 \<Rightarrow> vec3" where
  "normalize3 a = vec3 (v3x a / length3 a) (v3y a / length3 a) (v3z a / length3 a)"

definition mix3 :: "vec3 \<Rightarrow> vec3 \<Rightarrow> real \<Rightarrow> vec3" where
  "mix3 a b t = vec3 (mix (v3x a) (v3x b) t) (mix (v3y a) (v3y b) t) (mix (v3z a) (v3z b) t)"

text \<open>Matrices are given by their columns, in the order the constructors take them.\<close>

datatype mat3 = mat3 vec3 vec3 vec3
datatype mat4 = mat4 vec4 vec4 vec4 vec4

fun mulM3 :: "mat3 \<Rightarrow> vec3 \<Rightarrow> vec3" where
  "mulM3 (mat3 c0 c1 c2) a = c0 * splat3 (v3x a) + c1 * splat3 (v3y a) + c2 * splat3 (v3z a)"

fun mulM4 :: "mat4 \<Rightarrow> vec4 \<Rightarrow> vec4" where
  "mulM4 (mat4 c0 c1 c2 c3) a =
     c0 * splat4 (v4x a) + c1 * splat4 (v4y a) + c2 * splat4 (v4z a) + c3 * splat4 (v4w a)"

subsection \<open>Simplex noise\<close>

text \<open>
  Lines 30 to 79. \<open>mod289\<close> is overloaded for three and four components. In \<open>snoise\<close>
  the variables \<open>n_\<close>, \<open>x_\<close> and \<open>y_\<close> of the source are \<open>n_u\<close>, \<open>x_u\<close> and \<open>y_u\<close>, and a
  variable assigned twice is bound twice. Every constant is the decimal the source
  writes: \<open>n_u\<close> is 0.142857142857 and not one seventh.
\<close>

definition mod289_3 :: "vec3 \<Rightarrow> vec3" where
  "mod289_3 a = a - floor3 (a * splat3 (1.0 / 289.0)) * splat3 289.0"

definition mod289_4 :: "vec4 \<Rightarrow> vec4" where
  "mod289_4 a = a - floor4 (a * splat4 (1.0 / 289.0)) * splat4 289.0"

definition permute :: "vec4 \<Rightarrow> vec4" where
  "permute a = mod289_4 (((a * splat4 34.0) + splat4 1.0) * a)"

definition taylorInvSqrt :: "vec4 \<Rightarrow> vec4" where
  "taylorInvSqrt r = splat4 1.79284291400159 - splat4 0.85373472095314 * r"

definition snoise :: "vec3 \<Rightarrow> real" where
  "snoise v =
     (let C = vec2 (1.0 / 6.0) (1.0 / 3.0);
          D = vec4 0.0 0.5 1.0 2.0;
          i = floor3 (v + splat3 (dot3 v (splat3 (v2y C))));
          x0 = v - i + splat3 (dot3 i (splat3 (v2x C)));
          g = step3 (vec3 (v3y x0) (v3z x0) (v3x x0)) x0;
          l = splat3 1.0 - g;
          i1 = min3 g (vec3 (v3z l) (v3x l) (v3y l));
          i2 = max3 g (vec3 (v3z l) (v3x l) (v3y l));
          x1 = x0 - i1 + splat3 (v2x C);
          x2 = x0 - i2 + splat3 (v2y C);
          x3 = x0 - splat3 (v4y D);
          i = mod289_3 i;
          p = permute (permute (permute
                (splat4 (v3z i) + vec4 0.0 (v3z i1) (v3z i2) 1.0)
                + splat4 (v3y i) + vec4 0.0 (v3y i1) (v3y i2) 1.0)
                + splat4 (v3x i) + vec4 0.0 (v3x i1) (v3x i2) 1.0);
          n_u = 0.142857142857;
          ns = splat3 n_u * vec3 (v4w D) (v4y D) (v4z D) - vec3 (v4x D) (v4z D) (v4x D);
          j = p - splat4 49.0 * floor4 (p * splat4 (v3z ns) * splat4 (v3z ns));
          x_u = floor4 (j * splat4 (v3z ns));
          y_u = floor4 (j - splat4 7.0 * x_u);
          x = x_u * splat4 (v3x ns) + splat4 (v3y ns);
          y = y_u * splat4 (v3x ns) + splat4 (v3y ns);
          h = splat4 1.0 - abs4 x - abs4 y;
          b0 = vec4 (v4x x) (v4y x) (v4x y) (v4y y);
          b1 = vec4 (v4z x) (v4w x) (v4z y) (v4w y);
          s0 = floor4 b0 * splat4 2.0 + splat4 1.0;
          s1 = floor4 b1 * splat4 2.0 + splat4 1.0;
          sh = - step4 h (splat4 0.0);
          a0 = vec4 (v4x b0) (v4z b0) (v4y b0) (v4w b0)
                 + vec4 (v4x s0) (v4z s0) (v4y s0) (v4w s0)
                   * vec4 (v4x sh) (v4x sh) (v4y sh) (v4y sh);
          a1 = vec4 (v4x b1) (v4z b1) (v4y b1) (v4w b1)
                 + vec4 (v4x s1) (v4z s1) (v4y s1) (v4w s1)
                   * vec4 (v4z sh) (v4z sh) (v4w sh) (v4w sh);
          p0 = vec3 (v4x a0) (v4y a0) (v4x h);
          p1 = vec3 (v4z a0) (v4w a0) (v4y h);
          p2 = vec3 (v4x a1) (v4y a1) (v4z h);
          p3 = vec3 (v4z a1) (v4w a1) (v4w h);
          norm = taylorInvSqrt (vec4 (dot3 p0 p0) (dot3 p1 p1) (dot3 p2 p2) (dot3 p3 p3));
          p0 = p0 * splat3 (v4x norm);
          p1 = p1 * splat3 (v4y norm);
          p2 = p2 * splat3 (v4z norm);
          p3 = p3 * splat3 (v4w norm);
          m = max4 (splat4 0.6 - vec4 (dot3 x0 x0) (dot3 x1 x1) (dot3 x2 x2) (dot3 x3 x3))
                (splat4 0.0);
          m = m * m
      in 42.0 * dot4 (m * m) (vec4 (dot3 p0 x0) (dot3 p1 x1) (dot3 p2 x2) (dot3 p3 x3)))"

text \<open>Lines 82 to 90: the three columns of the rotation matrix.\<close>

definition rotateZ :: "real \<Rightarrow> mat3" where
  "rotateZ angle =
     (let c = cos angle;
          s = sin angle
      in mat3 (vec3 c (- s) 0.0) (vec3 s c 0.0) (vec3 0.0 0.0 1.0))"

subsection \<open>The shader's main function\<close>

text \<open>
  What one invocation reads: the vertex attributes \<open>position\<close>, \<open>aSize\<close> and \<open>aColor\<close>,
  the uniforms, and the two matrices the renderer supplies.
\<close>

record ShaderInput =
  position :: vec3
  aSize :: real
  aColor :: vec3
  uTime :: real
  uSize :: real
  uHandPos :: vec3
  uHandActive :: real
  uInteractionRadius :: real
  uInteractionStrength :: real
  uReturnSpeed :: real
  uExplosion :: real
  uBlackHole :: real
  modelViewMatrix :: mat4
  projectionMatrix :: mat4

text \<open>
  What one invocation writes: the varyings, the built-in outputs, and the local
  variables \<open>pos\<close> and \<open>extraSize\<close>. \<open>main\<close> is a function from the state before the
  invocation to the state after it, so that a value left over from an earlier
  invocation is an input of the model.
\<close>

record ShaderState =
  vColor :: vec3
  vDepth :: real
  gl_PointSize :: real
  gl_Position :: vec4
  pos :: vec3
  extraSize :: real

text \<open>Lines 93 to 98.\<close>

definition baseStep :: "ShaderInput \<Rightarrow> ShaderState \<Rightarrow> ShaderState" where
  "baseStep u st =
     (let st = st \<lparr> vColor := aColor u \<rparr>;
          st = st \<lparr> pos := position u \<rparr>;
          st = st \<lparr> extraSize := 1.0 \<rparr>
      in st \<lparr> pos := vec3 (v3x (pos st)) (v3y (pos st)) (v3z (pos st) * 1.5) \<rparr>)"

text \<open>Lines 100 to 104: ambient floating.\<close>

definition ambientStep :: "ShaderInput \<Rightarrow> ShaderState \<Rightarrow> ShaderState" where
  "ambientStep u st =
     (if uBlackHole u < 0.1 \<and> uExplosion u < 0.1 then
        (let drift = snoise (vec3 (v3x (pos st) * 0.005) (v3y (pos st) * 0.005) (uTime u * 0.1))
         in st \<lparr> pos := vec3 (v3x (pos st)) (v3y (pos st)) (v3z (pos st) + drift * 20.0) \<rparr>)
      else st)"

text \<open>Lines 106 to 141: the nebula cloud.\<close>

definition explosionStep :: "ShaderInput \<Rightarrow> ShaderState \<Rightarrow> ShaderState" where
  "explosionStep u st =
     (if uExplosion u > 0.001 then
        (let noiseVal = snoise (pos st * splat3 0.015 + splat3 (uTime u * 0.1));
             maxExpansion = 300.0 * uExplosion u;
             speedVar = smoothstep (- 0.5) 1.0 noiseVal;
             dir = normalize3 (pos st);
             st = st \<lparr> pos := pos st
                    + dir * splat3 maxExpansion * splat3 (0.4 + 0.6 * speedVar) \<rparr>;
             turb = vec3
                 (snoise (pos st * splat3 0.01 + vec3 0.0 (uTime u * 0.3) 0.0))
                 (snoise (pos st * splat3 0.01 + vec3 100.0 (uTime u * 0.3) 100.0))
                 (snoise (pos st * splat3 0.01 + vec3 200.0 200.0 (uTime u * 0.3)));
             st = st \<lparr> pos := pos st + turb * splat3 80.0 * splat3 (uExplosion u) \<rparr>;
             st = st \<lparr> pos := mulM3 (rotateZ (uExplosion u * 0.4)) (pos st) \<rparr>
         in st \<lparr> extraSize := extraSize st + uExplosion u * 8.0 \<rparr>)
      else st)"

text \<open>Line 146: the black-hole block flattens the depth first.\<close>

definition flattenStep :: "ShaderInput \<Rightarrow> ShaderState \<Rightarrow> ShaderState" where
  "flattenStep u st =
     st \<lparr> pos := vec3 (v3x (pos st)) (v3y (pos st))
                      (v3z (pos st) * mix 1.0 0.05 (uBlackHole u)) \<rparr>"

text \<open>Lines 151 to 161: the spin and the pull towards the ring, for the radius \<open>r\<close> of line 149.\<close>

definition vortexStep :: "ShaderInput \<Rightarrow> real \<Rightarrow> ShaderState \<Rightarrow> ShaderState" where
  "vortexStep u r st =
     (let spin = (400.0 / (r + 10.0)) * uTime u * 1.0 * uBlackHole u;
          st = st \<lparr> pos := mulM3 (rotateZ spin) (pos st) \<rparr>;
          targetR = 30.0 + r * 0.2;
          pull = uBlackHole u * 0.95
      in if r > 1.0 then
           (let newR = mix r targetR pull;
                xy = normalize2 (vec2 (v3x (pos st)) (v3y (pos st))) * splat2 newR
            in st \<lparr> pos := vec3 (v2x xy) (v2y xy) (v3z (pos st)) \<rparr>)
         else st)"

text \<open>Lines 166 to 198: the jets, and the glow of the particles that are none.\<close>

definition jetStep :: "ShaderInput \<Rightarrow> real \<Rightarrow> ShaderState \<Rightarrow> ShaderState" where
  "jetStep u r st =
     (let jetSignal = snoise (vec3 (v3x (position u) * 0.8) (v3y (position u) * 0.8) 42.0)
      in if jetSignal > 0.7 \<and> r < 120.0 then
           (let jetIntensity = uBlackHole u;
                jetLen = 500.0 * jetIntensity;
                side = sign (v3z (position u));
                side = (if side = 0.0 then 1.0 else side);
                st = st \<lparr> pos := vec3 (v3x (pos st) * 0.05) (v3y (pos st) * 0.05) (v3z (pos st)) \<rparr>;
                st = st \<lparr> pos := vec3 (v3x (pos st)) (v3y (pos st))
                                    (side * (50.0 + jetLen * abs jetSignal)) \<rparr>;
                jetTwist = v3z (pos st) * 0.05 - uTime u * 5.0;
                st = st \<lparr> pos := vec3 (v3x (pos st) + sin jetTwist * 10.0) (v3y (pos st))
                                    (v3z (pos st)) \<rparr>;
                st = st \<lparr> pos := vec3 (v3x (pos st)) (v3y (pos st) + cos jetTwist * 10.0)
                                    (v3z (pos st)) \<rparr>;
                st = st \<lparr> extraSize := extraSize st + 5.0 * jetIntensity \<rparr>
            in st \<lparr> vColor := mix3 (vColor st) (vec3 0.6 0.8 1.0) jetIntensity \<rparr>)
         else
           (let currentR = length2 (vec2 (v3x (pos st)) (v3y (pos st)))
            in if currentR < 60.0 then
                 (let heat = (1.0 - currentR / 60.0) * uBlackHole u;
                      st = st \<lparr> vColor := mix3 (vColor st) (vec3 1.0 0.9 0.6) heat \<rparr>
                  in st \<lparr> extraSize := extraSize st + 3.0 * heat \<rparr>)
               else st))"

text \<open>Lines 144 to 199, put together; \<open>r\<close> is taken after the flattening and before the spin.\<close>

definition blackHoleStep :: "ShaderInput \<Rightarrow> ShaderState \<Rightarrow> ShaderState" where
  "blackHoleStep u st =
     (if uBlackHole u > 0.001 then
        (let st = flattenStep u st;
             r = length2 (vec2 (v3x (pos st)) (v3y (pos st)));
             st = vortexStep u r st
         in jetStep u r st)
      else st)"

text \<open>Lines 202 to 211: repulsion by the hand. \<open>pow(force, 2.0)\<close> has a positive base here.\<close>

definition handStep :: "ShaderInput \<Rightarrow> ShaderState \<Rightarrow> ShaderState" where
  "handStep u st =
     (if uHandActive u > 0.5 \<and> uBlackHole u < 0.1 \<and> uExplosion u < 0.1 then
        (let toHand = pos st - uHandPos u;
             dist = length3 toHand
         in if dist < uInteractionRadius u then
              (let dir = normalize3 toHand;
                   force = 1.0 - dist / uInteractionRadius u;
                   force = (force powr 2.0) * uInteractionStrength u
               in st \<lparr> pos := pos st + dir * splat3 force \<rparr>)
            else st)
      else st)"

text \<open>Lines 213 to 219.\<close>

definition outputStep :: "ShaderInput \<Rightarrow> ShaderState \<Rightarrow> ShaderState" where
  "outputStep u st =
     (let st = st \<lparr> vDepth := v3z (pos st) \<rparr>;
          mvPosition = mulM4 (modelViewMatrix u)
                         (vec4 (v3x (pos st)) (v3y (pos st)) (v3z (pos st)) 1.0);
          st = st \<lparr> gl_PointSize :=
                        uSize u * aSize u * extraSize st * (300.0 / - v4z mvPosition) \<rparr>
      in st \<lparr> gl_Position := mulM4 (projectionMatrix u) mvPosition \<rparr>)"

text \<open>Lines 92 to 220.\<close>

definition main :: "ShaderInput \<Rightarrow> ShaderState \<Rightarrow> ShaderState" where
  "main u st =
     outputStep u (handStep u (blackHoleStep u (explosionStep u (ambientStep u (baseStep u st)))))"

section \<open>Notions of the specification and sample inputs\<close>

subsection \<open>Gesture classifier\<close>

text \<open>
  The Euclidean distance of two landmarks in the normalized image plane, that is over
  their x and y coordinates (the coordinates the landmark model normalizes to the unit
  square).
\<close>

definition planarDist :: "landmark \<Rightarrow> landmark \<Rightarrow> real" where
  "planarDist a b = sqrt ((lm_x a - lm_x b)\<^sup>2 + (lm_y a - lm_y b)\<^sup>2)"

text \<open>
  A finger, given by the indices of its tip and of its MCP joint, is curled when the tip
  is closer to the wrist (landmark 0) than 1.1 times the distance of the joint.
\<close>

definition curled :: "landmark list \<Rightarrow> nat \<Rightarrow> nat \<Rightarrow> bool" where
  "curled lms tip mcp \<longleftrightarrow>
     planarDist (lms ! tip) (lms ! 0) < 1.1 * planarDist (lms ! mcp) (lms ! 0)"

text \<open>The four fingers other than the thumb, as (tip, MCP joint).\<close>

definition fingers :: "(nat \<times> nat) list" where
  "fingers = [(8, 5), (12, 9), (16, 13), (20, 17)]"

definition curledCount :: "landmark list \<Rightarrow> nat" where
  "curledCount lms = length (filter (\<lambda>(tip, mcp). curled lms tip mcp) fingers)"

definition point :: "real \<Rightarrow> real \<Rightarrow> real \<Rightarrow> landmark" where
  "point a b c = \<lparr> lm_x = a, lm_y = b, lm_z = c \<rparr>"

text \<open>Index tip and thumb tip 0.03 apart, and 0.10 apart.\<close>

definition pinchFrame :: "landmark list" where
  "pinchFrame = (replicate 21 (point 0 0 0)) [8 := point 0.03 0 0]"

definition openFrame :: "landmark list" where
  "openFrame = (replicate 21 (point 0 0 0)) [8 := point 0.10 0 0]"

text \<open>All four tips on the wrist; and the same hand with ring and little finger stretched.\<close>

definition fistFrame :: "landmark list" where
  "fistFrame = (replicate 21 (point 0 0 0))
       [5 := point 1 0 0, 9 := point 1 0 0, 13 := point 1 0 0, 17 := point 1 0 0]"

definition twoFingerFrame :: "landmark list" where
  "twoFingerFrame = (replicate 21 (point 0 0 0))
       [5 := point 1 0 0, 9 := point 1 0 0, 13 := point 1 0 0, 17 := point 1 0 0,
        16 := point 2 0 0, 20 := point 2 0 0]"

text \<open>The fist again, every landmark moved to depth 7.\<close>

definition deepFistFrame :: "landmark list" where
  "deepFistFrame = map (\<lambda>p. p \<lparr> lm_z := 7 \<rparr>) fistFrame"

text \<open>The state the application starts in (App.tsx), and a state after a tracked hand.\<close>

definition restState :: GestureState where
  "restState = \<lparr> lastVideoTime = - 1,
       handData = \<lparr> isActive = False, hand_x = 0, hand_y = 0, hand_z = 0,
                     isPinching = False, isClosed = False \<rparr> \<rparr>"

definition trackedState :: GestureState where
  "trackedState = \<lparr> lastVideoTime = 2,
       handData = \<lparr> isActive = True, hand_x = 0.5, hand_y = - 0.25, hand_z = 0.1,
                     isPinching = True, isClosed = False \<rparr> \<rparr>"

subsection \<open>Field state machine\<close>

definition fistHand :: HandData where
  "fistHand = \<lparr> isActive = True, hand_x = 0, hand_y = 0, hand_z = 0,
                 isPinching = False, isClosed = True \<rparr>"

definition initialField :: FieldState where
  "initialField = \<lparr> currentExplosion = 0, targetExplosion = 0,
                     currentBlackHole = 0, targetBlackHole = 0 \<rparr>"

subsection \<open>Sampler\<close>

text \<open>
  The canvas hands out four bytes for every pixel.
\<close>

definition wellFormed :: "ImageData \<Rightarrow> bool" where
  "wellFormed img \<longleftrightarrow> length (data img) = 4 * width img * height img"

text \<open>
  The columns (or rows) the stride iteration visits below \<open>n\<close>: \<open>x\<close>, \<open>x + s\<close>,
  \<open>x + 2 * s\<close> and so on.
\<close>

function stride :: "nat \<Rightarrow> nat \<Rightarrow> nat \<Rightarrow> nat list" where
  "stride s x n = (if x < n \<and> 0 < s then x # stride s (x + s) n else [])"
  by pat_completeness auto
termination
  by (relation "measure (\<lambda>(s, x, n). n - x)") (auto simp: diff_less_mono2)

text \<open>The pixels the two loops visit, as (column, row), in the order of the visits.\<close>

definition visited :: "AppSettings \<Rightarrow> ImageData \<Rightarrow> (nat \<times> nat) list" where
  "visited settings img =
     concat (map (\<lambda>y. map (\<lambda>x. (x, y)) (stride (step settings) 0 (width img)))
                 (stride (step settings) 0 (height img)))"

definition pixelBrightness :: "ImageData \<Rightarrow> nat \<times> nat \<Rightarrow> real" where
  "pixelBrightness img p =
     (case p of (x, y) \<Rightarrow>
        0.299 * channel img ((y * width img + x) * 4)
        + 0.587 * channel img ((y * width img + x) * 4 + 1)
        + 0.114 * channel img ((y * width img + x) * 4 + 2))"

text \<open>The brightness and alpha filter: a pixel that is not skipped.\<close>

definition passes :: "AppSettings \<Rightarrow> ImageData \<Rightarrow> nat \<times> nat \<Rightarrow> bool" where
  "passes settings img p \<longleftrightarrow>
     (case p of (x, y) \<Rightarrow>
        threshold settings \<le> pixelBrightness img p
        \<and> 50 \<le> channel img ((y * width img + x) * 4 + 3))"

text \<open>The three position entries, the three colour entries and the size of the particle of a pixel.\<close>

definition particlePosition :: "AppSettings \<Rightarrow> ImageData \<Rightarrow> nat \<times> nat \<Rightarrow> real list" where
  "particlePosition settings img p =
     (case p of (x, y) \<Rightarrow>
        [real x - real (width img) / 2,
         - (real y - real (height img) / 2),
         depthValue settings img x y
           (channel img ((y * width img + x) * 4))
           (channel img ((y * width img + x) * 4 + 1))
           (channel img ((y * width img + x) * 4 + 2))])"

definition particleColor :: "ImageData \<Rightarrow> nat \<times> nat \<Rightarrow> real list" where
  "particleColor img p =
     (case p of (x, y) \<Rightarrow>
        [channel img ((y * width img + x) * 4) / 255,
         channel img ((y * width img + x) * 4 + 1) / 255,
         channel img ((y * width img + x) * 4 + 2) / 255])"

definition particleSize :: "ImageData \<Rightarrow> nat \<times> nat \<Rightarrow> real" where
  "particleSize img p = pixelBrightness img p / 255"

text \<open>
  The pixels that become particles: the visited pixels that pass the filter, as far as
  the allocated buffers reach.
\<close>

definition accepted :: "AppSettings \<Rightarrow> ImageData \<Rightarrow> (nat \<times> nat) list" where
  "accepted settings img =
     take (nat (estimatedCount settings img)) (filter (passes settings img) (visited settings img))"

text \<open>
  The invariant of the two loops for buffers of \<open>n\<close> particles: the pixels \<open>ps\<close> have
  been written, in this order.
\<close>

definition holds :: "nat \<Rightarrow> AppSettings \<Rightarrow> ImageData \<Rightarrow> Buffers \<Rightarrow> (nat \<times> nat) list \<Rightarrow> bool" where
  "holds n settings img st ps \<longleftrightarrow>
     particleIndex st = length ps \<and> length ps \<le> n
     \<and> length (buf_positions st) = n * 3 \<and> length (buf_colors st) = n * 3
     \<and> length (buf_sizes st) = n
     \<and> take (length ps * 3) (buf_positions st) = concat (map (particlePosition settings img) ps)
     \<and> take (length ps * 3) (buf_colors st) = concat (map (particleColor img) ps)
     \<and> take (length ps) (buf_sizes st) = map (particleSize img) ps"

text \<open>An image of \<open>w\<close> by \<open>h\<close> opaque white pixels.\<close>

definition whiteImage :: "nat \<Rightarrow> nat \<Rightarrow> ImageData" where
  "whiteImage w h = \<lparr> width = w, height = h, data = replicate (4 * w * h) 255 \<rparr>"

subsection \<open>Per-particle transform\<close>







text \<open>
  Two invocations read the same inputs: position, colour, time, both blend factors, the
  interaction point with its active flag, and the interaction radius and strength.
\<close>

definition sameInputs :: "ShaderInput \<Rightarrow> ShaderInput \<Rightarrow> bool" where
  "sameInputs u1 u2 \<longleftrightarrow>
     position u1 = position u2 \<and> aColor u1 = aColor u2 \<and> uTime u1 = uTime u2
     \<and> uExplosion u1 = uExplosion u2 \<and> uBlackHole u1 = uBlackHole u2
     \<and> uHandPos u1 = uHandPos u2 \<and> uHandActive u1 = uHandActive u2
     \<and> uInteractionRadius u1 = uInteractionRadius u2
     \<and> uInteractionStrength u1 = uInteractionStrength u2"

text \<open>Two states hold the same particle: position, size multiplier and colour.\<close>

definition sameParticle :: "ShaderState \<Rightarrow> ShaderState \<Rightarrow> bool" where
  "sameParticle st1 st2 \<longleftrightarrow>
     pos st1 = pos st2 \<and> extraSize st1 = extraSize st2 \<and> vColor st1 = vColor st2"

text \<open>
  Sample inputs: a particle at \<open>p\<close> under a full black-hole blend at time 0; the same
  with another size, return speed and model-view matrix; and two states an invocation
  may start from.
\<close>

definition identity4 :: mat4 where
  "identity4 = mat4 (vec4 1 0 0 0) (vec4 0 1 0 0) (vec4 0 0 1 0) (vec4 0 0 0 1)"

definition fistInput :: "vec3 \<Rightarrow> ShaderInput" where
  "fistInput p =
     \<lparr> position = p, aSize = 1, aColor = vec3 1 1 1, uTime = 0, uSize = 6,
       uHandPos = vec3 0 0 0, uHandActive = 0, uInteractionRadius = 150,
       uInteractionStrength = 80, uReturnSpeed = 1.5, uExplosion = 0, uBlackHole = 1,
       modelViewMatrix = identity4, projectionMatrix = identity4 \<rparr>"

definition otherInput :: "vec3 \<Rightarrow> ShaderInput" where
  "otherInput p = (fistInput p)
     \<lparr> aSize := 0.25, uSize := 2, uReturnSpeed := 3,
       modelViewMatrix := mat4 (vec4 1 0 0 0) (vec4 0 1 0 0) (vec4 0 0 1 0) (vec4 0 0 (- 800) 1) \<rparr>"

definition blankState :: "ShaderState" where
  "blankState = \<lparr> vColor = vec3 0 0 0, vDepth = 0, gl_PointSize = 0,
       gl_Position = vec4 0 0 0 0, pos = vec3 0 0 0, extraSize = 0 \<rparr>"

definition usedState :: "ShaderState" where
  "usedState = \<lparr> vColor = vec3 0.2 0.4 0.6, vDepth = 12, gl_PointSize = 3,
       gl_Position = vec4 1 2 3 4, pos = vec3 5 6 7, extraSize = 9 \<rparr>"

section \<open>The gesture classifier: pinch, fist, position\<close>

lemma pinchDist_planar: "pinchDist lms = planarDist (lms ! 8) (lms ! 4)"
  by (simp add: pinchDist_def planarDist_def Let_def power2_eq_square)

lemma fingerStep_curled:
  "fingerStep lms c 0 = (if curled lms 8 5 then c + 1 else c)"
  "fingerStep lms c (Suc 0) = (if curled lms 12 9 then c + 1 else c)"
  "fingerStep lms c 2 = (if curled lms 16 13 then c + 1 else c)"
  "fingerStep lms c 3 = (if curled lms 20 17 then c + 1 else c)"
  by (simp_all add: fingerStep_def curled_def planarDist_def tips_def mcps_def Let_def
      mult.commute)

lemma fingerLoop_unroll:
  "fingerLoop lms 0 c =
     fingerStep lms (fingerStep lms (fingerStep lms (fingerStep lms c 0) (Suc 0)) 2) 3"
  by (simp add: numeral_2_eq_2 numeral_3_eq_3)

lemma fingerLoop_count: "fingerLoop lms 0 0 = curledCount lms"
  by (simp add: fingerLoop_unroll fingerStep_curled curledCount_def fingers_def
      del: fingerLoop.simps)

lemma isClosed_count: "isClosed (classify lms) \<longleftrightarrow> 3 \<le> curledCount lms"
  by (simp add: classify_def Let_def fingerLoop_count del: fingerLoop.simps)

lemma predictWebcam_detected:
  assumes "length lms = 21" and "lastVideoTime st \<noteq> t"
  shows "predictWebcam True t (Some (lms # others)) st =
           Inr \<lparr> lastVideoTime = t, handData = classify lms \<rparr>"
  using assms by (simp add: predictWebcam_def detected_def)

lemma sqrt_eval: "0 \<le> y \<Longrightarrow> y * y = x \<Longrightarrow> sqrt x = y"
  by (metis real_sqrt_abs2 abs_of_nonneg)

lemma pinchFrame_dist: "planarDist (pinchFrame ! 8) (pinchFrame ! 4) = 0.03"
  by (simp add: pinchFrame_def planarDist_def point_def sqrt_eval)

lemma openFrame_dist: "planarDist (openFrame ! 8) (openFrame ! 4) = 0.10"
  by (simp add: openFrame_def planarDist_def point_def sqrt_eval)

lemma fistFrame_count: "curledCount fistFrame = 4"
  by (simp add: curledCount_def fingers_def curled_def planarDist_def fistFrame_def point_def)

lemma twoFingerFrame_count: "curledCount twoFingerFrame = 2"
  by (simp add: curledCount_def fingers_def curled_def planarDist_def twoFingerFrame_def
      point_def)

text \<open>
  Claim C5. A processed frame with a detected hand of 21 landmarks stores the
  classification of that hand, and the classification reports a pinch exactly when the
  distance between the index fingertip (landmark 8) and the thumb tip (landmark 4),
  taken over the normalized x and y coordinates as the code takes it, is below 0.05.
  In particular a distance of 0.03 is a pinch and a distance of 0.10 is none.
\<close>

theorem pinch_iff_tip_distance:
  assumes "length lms = 21" and "lastVideoTime st \<noteq> t"
  shows "predictWebcam True t (Some (lms # others)) st =
           Inr \<lparr> lastVideoTime = t, handData = classify lms \<rparr>
       \<and> (isPinching (classify lms) \<longleftrightarrow> planarDist (lms ! 8) (lms ! 4) < 0.05)
       \<and> (planarDist (lms ! 8) (lms ! 4) = 0.03 \<longrightarrow> isPinching (classify lms))
       \<and> (planarDist (lms ! 8) (lms ! 4) = 0.10 \<longrightarrow> \<not> isPinching (classify lms))"
proof -
  have iff: "isPinching (classify lms) \<longleftrightarrow> planarDist (lms ! 8) (lms ! 4) < 0.05"
    by (simp add: classify_def Let_def pinchDist_planar)
  show ?thesis
    using predictWebcam_detected [OF assms] iff by simp
qed

theorem pinch_iff_tip_distance_witness:
  "length pinchFrame = 21 \<and> length openFrame = 21 \<and> lastVideoTime restState \<noteq> 0
     \<and> planarDist (pinchFrame ! 8) (pinchFrame ! 4) = 0.03
     \<and> planarDist (openFrame ! 8) (openFrame ! 4) = 0.10
     \<and> predictWebcam True 0 (Some [pinchFrame]) restState =
           Inr \<lparr> lastVideoTime = 0, handData = classify pinchFrame \<rparr>
     \<and> isPinching (classify pinchFrame)
     \<and> \<not> isPinching (classify openFrame)"
proof -
  have l1: "length pinchFrame = 21" and l2: "length openFrame = 21"
    by (simp_all add: pinchFrame_def openFrame_def)
  have t: "lastVideoTime restState \<noteq> 0"
    by (simp add: restState_def)
  show ?thesis
    using pinch_iff_tip_distance [OF l1 t, of "[]"] pinch_iff_tip_distance [OF l2 t, of "[]"]
      l1 l2 t pinchFrame_dist openFrame_dist
    by simp
qed

text \<open>
  Claim C6. A processed frame with a detected hand of 21 landmarks reports a closed
  fist exactly when at least three of the four fingers other than the thumb are curled,
  a finger being curled when the distance from its tip (8, 12, 16, 20) to the wrist
  (0) is below 1.1 times the distance from its MCP joint (5, 9, 13, 17) to the wrist.
  Four curled fingers give a fist, two curled fingers give none.
\<close>

theorem closed_iff_three_fingers_curled:
  assumes "length lms = 21" and "lastVideoTime st \<noteq> t"
  shows "predictWebcam True t (Some (lms # others)) st =
           Inr \<lparr> lastVideoTime = t, handData = classify lms \<rparr>
       \<and> (isClosed (classify lms) \<longleftrightarrow> 3 \<le> curledCount lms)
       \<and> (curledCount lms = 4 \<longrightarrow> isClosed (classify lms))
       \<and> (curledCount lms = 2 \<longrightarrow> \<not> isClosed (classify lms))"
  using predictWebcam_detected [OF assms] isClosed_count [of lms] by simp

theorem closed_iff_three_fingers_curled_witness:
  "length fistFrame = 21 \<and> length twoFingerFrame = 21 \<and> lastVideoTime restState \<noteq> 0
     \<and> curledCount fistFrame = 4 \<and> curledCount twoFingerFrame = 2
     \<and> predictWebcam True 0 (Some [fistFrame]) restState =
           Inr \<lparr> lastVideoTime = 0, handData = classify fistFrame \<rparr>
     \<and> isClosed (classify fistFrame)
     \<and> \<not> isClosed (classify twoFingerFrame)"
proof -
  have l1: "length fistFrame = 21" and l2: "length twoFingerFrame = 21"
    by (simp_all add: fistFrame_def twoFingerFrame_def)
  have t: "lastVideoTime restState \<noteq> 0"
    by (simp add: restState_def)
  show ?thesis
    using closed_iff_three_fingers_curled [OF l1 t, of "[]"]
      closed_iff_three_fingers_curled [OF l2 t, of "[]"]
      l1 l2 t fistFrame_count twoFingerFrame_count
    by simp
qed

text \<open>
  Claim C8. A processed frame (a new time stamp, landmarker and video present) in which
  no hand is detected stores the previous hand data with the active flag cleared: the
  flag is false and x, y, z, the pinch flag and the fist flag are those of the previous
  frame.
\<close>

theorem no_hand_clears_only_active:
  assumes "lastVideoTime st \<noteq> t" and "results = None \<or> results = Some []"
  shows "predictWebcam True t results st =
           Inr \<lparr> lastVideoTime = t, handData = (handData st) \<lparr> isActive := False \<rparr> \<rparr>
       \<and> isActive ((handData st) \<lparr> isActive := False \<rparr>) = False
       \<and> (handData st) \<lparr> isActive := False \<rparr> =
           \<lparr> isActive = False, hand_x = hand_x (handData st), hand_y = hand_y (handData st),
             hand_z = hand_z (handData st), isPinching = isPinching (handData st),
             isClosed = isClosed (handData st) \<rparr>"
  using assms by (auto simp: predictWebcam_def)

theorem no_hand_clears_only_active_witness:
  "lastVideoTime trackedState \<noteq> 3
     \<and> predictWebcam True 3 (Some []) trackedState =
         Inr \<lparr> lastVideoTime = 3,
               handData = \<lparr> isActive = False, hand_x = 0.5, hand_y = - 0.25, hand_z = 0.1,
                             isPinching = True, isClosed = False \<rparr> \<rparr>
     \<and> predictWebcam True 3 None trackedState =
         Inr \<lparr> lastVideoTime = 3,
               handData = \<lparr> isActive = False, hand_x = 0.5, hand_y = - 0.25, hand_z = 0.1,
                             isPinching = True, isClosed = False \<rparr> \<rparr>"
proof -
  have t: "lastVideoTime trackedState \<noteq> 3"
    by (simp add: trackedState_def)
  have h: "handData trackedState =
      \<lparr> isActive = True, hand_x = 0.5, hand_y = - 0.25, hand_z = 0.1,
        isPinching = True, isClosed = False \<rparr>"
    by (simp add: trackedState_def)
  show ?thesis
    using no_hand_clears_only_active [OF t, of "Some []"]
      no_hand_clears_only_active [OF t, of None] t h
    by simp
qed

text \<open>
  Claim C10. Two hands of 21 landmarks that agree in every x and every y coordinate are
  classified alike in the pinch flag, the fist flag and the reported x and y, whatever
  their z coordinates; the reported depth is the z coordinate of landmark 9 of each
  hand, the one field that can differ.
\<close>

theorem classifier_ignores_depth:
  assumes "length lms1 = 21"
    and "map lm_x lms1 = map lm_x lms2" and "map lm_y lms1 = map lm_y lms2"
  shows "detected lms1 = Inr (classify lms1) \<and> detected lms2 = Inr (classify lms2)
       \<and> isPinching (classify lms1) = isPinching (classify lms2)
       \<and> isClosed (classify lms1) = isClosed (classify lms2)
       \<and> hand_x (classify lms1) = hand_x (classify lms2)
       \<and> hand_y (classify lms1) = hand_y (classify lms2)
       \<and> isActive (classify lms1) = isActive (classify lms2)
       \<and> hand_z (classify lms1) = lm_z (lms1 ! 9)
       \<and> hand_z (classify lms2) = lm_z (lms2 ! 9)"
proof -
  have len2: "length lms2 = 21"
    using assms(1,2) by (metis length_map)
  have xy: "lm_x (lms1 ! i) = lm_x (lms2 ! i)" "lm_y (lms1 ! i) = lm_y (lms2 ! i)"
    if "i < 21" for i
  proof -
    have "map lm_x lms1 ! i = map lm_x lms2 ! i" "map lm_y lms1 ! i = map lm_y lms2 ! i"
      using assms(2,3) by simp_all
    then show "lm_x (lms1 ! i) = lm_x (lms2 ! i)" "lm_y (lms1 ! i) = lm_y (lms2 ! i)"
      using that assms(1) len2 by simp_all
  qed
  have pd: "planarDist (lms1 ! i) (lms1 ! j) = planarDist (lms2 ! i) (lms2 ! j)"
    if "i < 21" "j < 21" for i j
    using xy [OF that(1)] xy [OF that(2)] by (simp add: planarDist_def)
  have p: "pinchDist lms1 = pinchDist lms2"
    by (simp add: pinchDist_planar pd)
  have c: "curledCount lms1 = curledCount lms2"
    by (simp add: curledCount_def fingers_def curled_def pd)
  have cl: "isClosed (classify lms1) = isClosed (classify lms2)"
    by (simp add: isClosed_count c)
  have rest: "isPinching (classify lms1) = isPinching (classify lms2)"
    "hand_x (classify lms1) = hand_x (classify lms2)"
    "hand_y (classify lms1) = hand_y (classify lms2)"
    using p xy [of 9] by (simp_all add: classify_def Let_def del: fingerLoop.simps)
  have act: "isActive (classify lms1) = isActive (classify lms2)"
    "hand_z (classify lms1) = lm_z (lms1 ! 9)" "hand_z (classify lms2) = lm_z (lms2 ! 9)"
    by (simp_all add: classify_def Let_def del: fingerLoop.simps)
  show ?thesis
    using cl rest act assms(1) len2 by (simp add: detected_def)
qed

theorem classifier_ignores_depth_witness:
  "length fistFrame = 21
     \<and> map lm_x fistFrame = map lm_x deepFistFrame
     \<and> map lm_y fistFrame = map lm_y deepFistFrame
     \<and> isPinching (classify fistFrame) = isPinching (classify deepFistFrame)
     \<and> isClosed (classify fistFrame) = isClosed (classify deepFistFrame)
     \<and> hand_x (classify fistFrame) = hand_x (classify deepFistFrame)
     \<and> hand_y (classify fistFrame) = hand_y (classify deepFistFrame)
     \<and> hand_z (classify fistFrame) = 0
     \<and> hand_z (classify deepFistFrame) = 7"
proof -
  have l: "length fistFrame = 21"
    by (simp add: fistFrame_def)
  have mx: "map lm_x fistFrame = map lm_x deepFistFrame"
    and my: "map lm_y fistFrame = map lm_y deepFistFrame"
    by (simp_all add: deepFistFrame_def)
  have z1: "lm_z (fistFrame ! 9) = 0"
    by (simp add: fistFrame_def point_def)
  have z2: "lm_z (deepFistFrame ! 9) = 7"
    using l by (simp add: deepFistFrame_def)
  show ?thesis
    using classifier_ignores_depth [OF l mx my] l mx my z1 z2 by simp
qed

section \<open>The field state machine under a sustained fist\<close>

lemma animate_fist:
  assumes "isActive hand" and "isClosed hand"
  shows "currentExplosion (animate hand st) = currentExplosion st * 0.95"
    and "currentBlackHole (animate hand st) = currentBlackHole st * 0.95 + 0.05"
    and "targetExplosion (animate hand st) = 0"
    and "targetBlackHole (animate hand st) = 1"
  using assms by (simp_all add: animate_def algebra_simps)

lemma frames_fist:
  assumes "isActive hand" and "isClosed hand"
    and "currentExplosion st = 0" and "currentBlackHole st = 0"
  shows "currentExplosion (frames n hand st) = 0
       \<and> currentBlackHole (frames n hand st) = 1 - 0.95 ^ n"
proof (induction n)
  case 0
  then show ?case using assms(3,4) by simp
next
  case (Suc n)
  then show ?case
    by (simp add: animate_fist [OF assms(1,2)] algebra_simps)
qed

text \<open>
  Claim C2. From explosion 0 and black hole 0, under a hand that stays active and
  closed, after every number \<open>n\<close> of frames the explosion factor is still 0 and the
  black-hole factor is \<open>1 - 0.95 ^ n\<close>: it grows with every frame, stays below 1, and
  converges to 1.
\<close>

theorem fist_blend_rises_to_one:
  assumes "isActive hand" and "isClosed hand"
    and "currentExplosion st = 0" and "currentBlackHole st = 0"
  shows "currentExplosion (frames n hand st) = 0
       \<and> currentBlackHole (frames n hand st) = 1 - 0.95 ^ n
       \<and> currentBlackHole (frames n hand st) < currentBlackHole (frames (Suc n) hand st)
       \<and> currentBlackHole (frames n hand st) < 1
       \<and> (\<lambda>k. currentBlackHole (frames k hand st)) \<longlonglongrightarrow> 1"
proof -
  have cf: "currentBlackHole (frames k hand st) = 1 - 0.95 ^ k" for k
    using frames_fist [OF assms] by simp
  have pos: "(0::real) < 0.95 ^ n"
    by simp
  have step: "(0.95::real) ^ Suc n < 0.95 ^ n"
    using pos by simp
  have "(\<lambda>k. (0.95::real) ^ k) \<longlonglongrightarrow> 0"
    by (rule LIMSEQ_realpow_zero) simp_all
  then have "(\<lambda>k. 1 - (0.95::real) ^ k) \<longlonglongrightarrow> 1 - 0"
    by (intro tendsto_diff tendsto_const)
  then have lim: "(\<lambda>k. currentBlackHole (frames k hand st)) \<longlonglongrightarrow> 1"
    by (simp add: cf)
  show ?thesis
    using frames_fist [OF assms, of n] cf [of "Suc n"] pos step lim by simp
qed

theorem fist_blend_rises_to_one_witness:
  "isActive fistHand \<and> isClosed fistHand
     \<and> currentExplosion initialField = 0 \<and> currentBlackHole initialField = 0
     \<and> currentExplosion (frames 2 fistHand initialField) = 0
     \<and> currentBlackHole (frames 2 fistHand initialField) = 0.0975
     \<and> currentBlackHole (frames 2 fistHand initialField)
         < currentBlackHole (frames 3 fistHand initialField)
     \<and> currentBlackHole (frames 2 fistHand initialField) < 1"
proof -
  have a: "isActive fistHand" "isClosed fistHand"
    by (simp_all add: fistHand_def)
  have i: "currentExplosion initialField = 0" "currentBlackHole initialField = 0"
    by (simp_all add: initialField_def)
  have s: "Suc 2 = 3" by simp
  show ?thesis
    using fist_blend_rises_to_one [OF a i, of 2] a i by (simp add: s power2_eq_square)
qed

section \<open>The sampler: what the loops compute\<close>

declare rowLoop.simps [simp del] imageLoop.simps [simp del] stride.simps [simp del]

lemma step_positive: "0 < step settings"
  by (simp add: step_def)

lemma take_write3:
  assumes "k * 3 + 2 < length xs"
  shows "take (Suc k * 3) (xs [k * 3 := a, k * 3 + 1 := b, k * 3 + 2 := c])
           = take (k * 3) xs @ [a, b, c]"
proof -
  have e: "Suc k * 3 = Suc (Suc (Suc (k * 3)))" by simp
  show ?thesis
    unfolding e using assms by (simp add: take_Suc_conv_app_nth nth_list_update)
qed

lemma take_write1:
  assumes "k < length xs"
  shows "take (Suc k) (xs [k := a]) = take k xs @ [a]"
  using assms by (simp add: take_Suc_conv_app_nth)

lemma pixelStep_holds:
  assumes "holds n settings img st ps" and "length ps < n"
  shows "holds n settings img (pixelStep settings img y x st)
           (if passes settings img (x, y) then ps @ [(x, y)] else ps)"
proof (cases "passes settings img (x, y)")
  case False
  then have "pixelStep settings img y x st = st"
    by (auto simp: pixelStep_def passes_def pixelBrightness_def Let_def)
  with False assms(1) show ?thesis by simp
next
  case True
  let ?k = "length ps"
  have k: "particleIndex st = ?k" and lp: "length (buf_positions st) = n * 3"
    and lc: "length (buf_colors st) = n * 3" and ls: "length (buf_sizes st) = n"
    using assms(1) by (simp_all add: holds_def)
  have b3: "?k * 3 + 2 < n * 3" using assms(2) by simp
  have step: "pixelStep settings img y x st =
      \<lparr> buf_positions = (buf_positions st)
           [?k * 3 := particlePosition settings img (x, y) ! 0,
            ?k * 3 + 1 := particlePosition settings img (x, y) ! 1,
            ?k * 3 + 2 := particlePosition settings img (x, y) ! 2],
        buf_colors = (buf_colors st)
           [?k * 3 := particleColor img (x, y) ! 0,
            ?k * 3 + 1 := particleColor img (x, y) ! 1,
            ?k * 3 + 2 := particleColor img (x, y) ! 2],
        buf_sizes = (buf_sizes st) [?k := particleSize img (x, y)],
        particleIndex = ?k + 1 \<rparr>"
    using True k
    by (simp add: pixelStep_def passes_def pixelBrightness_def Let_def not_less
        particlePosition_def particleColor_def particleSize_def)
  have p3: "particlePosition settings img (x, y) =
      [particlePosition settings img (x, y) ! 0, particlePosition settings img (x, y) ! 1,
       particlePosition settings img (x, y) ! 2]"
    by (simp add: particlePosition_def)
  have c3: "particleColor img (x, y) =
      [particleColor img (x, y) ! 0, particleColor img (x, y) ! 1, particleColor img (x, y) ! 2]"
    by (simp add: particleColor_def)
  have tp: "take (Suc ?k * 3) (buf_positions (pixelStep settings img y x st)) =
      take (?k * 3) (buf_positions st) @ particlePosition settings img (x, y)"
    unfolding step using b3 lp by (subst (4) p3) (simp only: Buffers.simps take_write3)
  have tc: "take (Suc ?k * 3) (buf_colors (pixelStep settings img y x st)) =
      take (?k * 3) (buf_colors st) @ particleColor img (x, y)"
    unfolding step using b3 lc by (subst (4) c3) (simp only: Buffers.simps take_write3)
  have ts: "take (Suc ?k) (buf_sizes (pixelStep settings img y x st)) =
      take ?k (buf_sizes st) @ [particleSize img (x, y)]"
    unfolding step using assms(2) ls by (simp add: take_write1)
  have lens: "length (buf_positions (pixelStep settings img y x st)) = n * 3"
    "length (buf_colors (pixelStep settings img y x st)) = n * 3"
    "length (buf_sizes (pixelStep settings img y x st)) = n"
    "particleIndex (pixelStep settings img y x st) = Suc ?k"
    unfolding step using lp lc ls by simp_all
  have old: "take (?k * 3) (buf_positions st) = concat (map (particlePosition settings img) ps)"
    "take (?k * 3) (buf_colors st) = concat (map (particleColor img) ps)"
    "take ?k (buf_sizes st) = map (particleSize img) ps"
    using assms(1) by (simp_all add: holds_def)
  show ?thesis
    using True assms(2) lens tp tc ts old
    by (simp add: holds_def del: mult_Suc)
qed

lemma take_take_append: "take n (take n xs @ ys) = take n (xs @ ys)"
  by (cases "n \<le> length xs") (simp_all add: min_def)

lemma holds_length: "holds n settings img st ps \<Longrightarrow> length ps \<le> n"
  by (simp add: holds_def)

lemma rowLoop_holds:
  assumes "holds n settings img st ps" and "n = nat (estimatedCount settings img)"
  shows "holds n settings img (rowLoop settings img y x st)
           (take n (ps @ filter (passes settings img)
                            (map (\<lambda>x. (x, y)) (stride (step settings) x (width img)))))"
  using assms
proof (induction settings img y x st arbitrary: ps rule: rowLoop.induct)
  case (1 settings img y x st)
  have len: "length ps \<le> n" using "1.prems"(1) by (rule holds_length)
  have pi: "particleIndex st = length ps" using "1.prems"(1) by (simp add: holds_def)
  show ?case
  proof (cases "x < width img")
    case False
    then have "rowLoop settings img y x st = st" by (subst rowLoop.simps) simp
    moreover have "stride (step settings) x (width img) = []"
      using False by (subst stride.simps) simp
    ultimately show ?thesis using "1.prems"(1) len by simp
  next
    case True
    note inrow = True
    have unfold: "stride (step settings) x (width img)
        = x # stride (step settings) (x + step settings) (width img)"
      using True step_positive [of settings] by (subst stride.simps) simp
    show ?thesis
    proof (cases "int (particleIndex st) \<ge> estimatedCount settings img")
      case True
      then have full: "length ps = n" using len pi "1.prems"(2) by linarith
      have "rowLoop settings img y x st = st"
        using True inrow by (subst rowLoop.simps) simp
      then show ?thesis using "1.prems"(1) full by simp
    next
      case False
      then have room: "length ps < n" using pi "1.prems"(2) by linarith
      let ?ps' = "if passes settings img (x, y) then ps @ [(x, y)] else ps"
      have h': "holds n settings img (pixelStep settings img y x st) ?ps'"
        using pixelStep_holds [OF "1.prems"(1) room] .
      have rec: "rowLoop settings img y x st
          = rowLoop settings img y (x + step settings) (pixelStep settings img y x st)"
        using False inrow by (subst rowLoop.simps) simp
      have "holds n settings img
          (rowLoop settings img y (x + step settings) (pixelStep settings img y x st))
          (take n (?ps' @ filter (passes settings img)
             (map (\<lambda>x. (x, y)) (stride (step settings) (x + step settings) (width img)))))"
        using "1.IH" [OF inrow False h' "1.prems"(2)] .
      moreover have "?ps' @ filter (passes settings img)
             (map (\<lambda>x. (x, y)) (stride (step settings) (x + step settings) (width img)))
          = ps @ filter (passes settings img)
             (map (\<lambda>x. (x, y)) (x # stride (step settings) (x + step settings) (width img)))"
        by simp
      ultimately show ?thesis
        unfolding rec unfold by (simp only:)
    qed
  qed
qed

lemma imageLoop_holds:
  assumes "holds n settings img st ps" and "n = nat (estimatedCount settings img)"
  shows "holds n settings img (imageLoop settings img y st)
           (take n (ps @ filter (passes settings img)
              (concat (map (\<lambda>y. map (\<lambda>x. (x, y)) (stride (step settings) 0 (width img)))
                           (stride (step settings) y (height img))))))"
  using assms
proof (induction settings img y st arbitrary: ps rule: imageLoop.induct)
  case (1 settings img y st)
  have len: "length ps \<le> n" using "1.prems"(1) by (rule holds_length)
  show ?case
  proof (cases "y < height img")
    case False
    then have "imageLoop settings img y st = st" by (subst imageLoop.simps) simp
    moreover have "stride (step settings) y (height img) = []"
      using False by (subst stride.simps) simp
    ultimately show ?thesis using "1.prems"(1) len by simp
  next
    case True
    have unfold: "stride (step settings) y (height img)
        = y # stride (step settings) (y + step settings) (height img)"
      using True step_positive [of settings] by (subst stride.simps) simp
    let ?row = "filter (passes settings img)
                  (map (\<lambda>x. (x, y)) (stride (step settings) 0 (width img)))"
    let ?rest = "filter (passes settings img)
              (concat (map (\<lambda>y. map (\<lambda>x. (x, y)) (stride (step settings) 0 (width img)))
                           (stride (step settings) (y + step settings) (height img))))"
    have h': "holds n settings img (rowLoop settings img y 0 st) (take n (ps @ ?row))"
      using rowLoop_holds [OF "1.prems"] .
    have rec: "imageLoop settings img y st
        = imageLoop settings img (y + step settings) (rowLoop settings img y 0 st)"
      using True by (subst imageLoop.simps) simp
    have "holds n settings img
        (imageLoop settings img (y + step settings) (rowLoop settings img y 0 st))
        (take n (take n (ps @ ?row) @ ?rest))"
      using "1.IH" [OF True h' "1.prems"(2)] .
    moreover have "(ps @ ?row) @ ?rest
        = ps @ filter (passes settings img)
            (concat (map (\<lambda>y. map (\<lambda>x. (x, y)) (stride (step settings) 0 (width img)))
               (y # stride (step settings) (y + step settings) (height img))))"
      by simp
    then have "take n (take n (ps @ ?row) @ ?rest)
        = take n (ps @ filter (passes settings img)
            (concat (map (\<lambda>y. map (\<lambda>x. (x, y)) (stride (step settings) 0 (width img)))
               (y # stride (step settings) (y + step settings) (height img)))))"
      by (simp only: take_take_append)
    ultimately show ?thesis
      unfolding rec unfold by (simp only:)
  qed
qed

lemma estimatedCount_nonneg: "0 \<le> estimatedCount settings img"
proof -
  have "0 \<le> real (width img * height img) / real (step settings * step settings)"
    by simp
  then have "- 1 < real (width img * height img) / real (step settings * step settings)"
    by linarith
  then have "0 \<le> \<lceil>real (width img * height img) / real (step settings * step settings)\<rceil>"
    by (simp only: zero_le_ceiling)
  then show ?thesis
    by (simp add: estimatedCount_def Let_def)
qed

text \<open>
  The result of the sampler: the particles of the accepted pixels, entry by entry, in
  the order of the visits.
\<close>

lemma sample_accepted:
  "sampleImage img settings =
     \<lparr> positions = concat (map (particlePosition settings img) (accepted settings img)),
       colors = concat (map (particleColor img) (accepted settings img)),
       sizes = map (particleSize img) (accepted settings img),
       count = length (accepted settings img) \<rparr>"
proof -
  let ?n = "nat (estimatedCount settings img)"
  let ?st0 = "\<lparr> buf_positions = replicate (?n * 3) 0, buf_colors = replicate (?n * 3) 0,
                 buf_sizes = replicate ?n 0, particleIndex = 0 \<rparr>"
  have "holds ?n settings img ?st0 []"
    by (simp add: holds_def)
  from imageLoop_holds [OF this refl, of 0]
  have "holds ?n settings img (imageLoop settings img 0 ?st0) (accepted settings img)"
    by (simp add: accepted_def visited_def)
  then show ?thesis
    by (simp add: sampleImage_def Let_def holds_def)
qed

lemma sample_count:
  "count (sampleImage img settings) =
     min (nat (estimatedCount settings img))
         (length (filter (passes settings img) (visited settings img)))"
  by (simp add: sample_accepted accepted_def min.commute)

lemma stride_closed_form:
  assumes "0 < s"
  shows "stride s (k * s) n = map (\<lambda>j. j * s) [k..<(n + s - 1) div s]"
proof (induction "(n + s - 1) div s - k" arbitrary: k)
  case 0
  then have "(n + s - 1) div s \<le> k" by simp
  then have "\<not> Suc k \<le> (n + s - 1) div s" by simp
  then have "\<not> Suc k * s \<le> n + s - 1"
    using assms by (simp add: less_eq_div_iff_mult_less_eq del: mult_Suc)
  moreover have "Suc k * s = k * s + s" by simp
  ultimately have "\<not> k * s < n" using assms by arith
  then show ?case using 0 by (subst stride.simps) simp
next
  case (Suc d)
  then have lt: "k < (n + s - 1) div s" by simp
  then have "Suc k \<le> (n + s - 1) div s" by simp
  then have "Suc k * s \<le> n + s - 1"
    using assms by (simp add: less_eq_div_iff_mult_less_eq del: mult_Suc)
  moreover have "Suc k * s = k * s + s" by simp
  ultimately have inb: "k * s < n" using assms by arith
  have d: "d = (n + s - 1) div s - Suc k" using Suc(2) by simp
  have "stride s (k * s) n = k * s # stride s (Suc k * s) n"
    using inb assms by (subst stride.simps) (simp add: add.commute)
  also have "\<dots> = k * s # map (\<lambda>j. j * s) [Suc k..<(n + s - 1) div s]"
    using Suc(1) [OF d] by simp
  also have "\<dots> = map (\<lambda>j. j * s) [k..<(n + s - 1) div s]"
    using lt by (simp add: upt_conv_Cons)
  finally show ?case .
qed

lemma stride_multiples:
  "stride (step settings) 0 n =
     map (\<lambda>j. j * step settings) [0..<(n + step settings - 1) div step settings]"
  using stride_closed_form [OF step_positive, of settings 0 n] by simp

lemma concat_triples_take:
  assumes "\<And>x. length (f x) = 3" and "i < length xs"
  shows "take 3 (drop (3 * i) (concat (map f xs))) = f (xs ! i)"
  using assms(2)
proof (induction xs arbitrary: i)
  case Nil
  then show ?case by simp
next
  case (Cons x xs)
  show ?case
  proof (cases i)
    case 0
    then show ?thesis using assms(1) [of x] by simp
  next
    case (Suc j)
    then have "j < length xs" using Cons.prems by simp
    then have "take 3 (drop (3 * j) (concat (map f xs))) = f (xs ! j)"
      by (rule Cons.IH)
    moreover have "drop (3 * i) (concat (map f (x # xs))) = drop (3 * j) (concat (map f xs))"
      using Suc assms(1) [of x] by simp
    ultimately show ?thesis using Suc by simp
  qed
qed

lemma concat_triples_length:
  assumes "\<And>x. length (f x) = 3"
  shows "length (concat (map f xs)) = 3 * length xs"
  using assms by (induction xs) simp_all

lemma particlePosition_length: "length (particlePosition settings img p) = 3"
  by (cases p) (simp add: particlePosition_def)

lemma particleColor_length: "length (particleColor img p) = 3"
  by (cases p) (simp add: particleColor_def)

lemma count_le_estimate: "int (count (sampleImage img settings)) \<le> estimatedCount settings img"
  using estimatedCount_nonneg [of settings img] by (simp add: sample_count)

lemma estimate_le_cap:
  "0 < maxParticles settings \<Longrightarrow> estimatedCount settings img \<le> maxParticles settings"
  by (simp add: estimatedCount_def Let_def)

subsection \<open>Sample images\<close>

lemma default_fields:
  "density DEFAULT_SETTINGS = 2" "threshold DEFAULT_SETTINGS = 30"
  "maxParticles DEFAULT_SETTINGS = 200000" "depthMode DEFAULT_SETTINGS = Brightness"
  "depthRange DEFAULT_SETTINGS = 400" "depthInvert DEFAULT_SETTINGS = False"
  by (simp_all add: DEFAULT_SETTINGS_def)

lemma step_default: "step DEFAULT_SETTINGS = 2"
  by (simp add: step_def default_fields)

lemma white_fields: "width (whiteImage w h) = w" "height (whiteImage w h) = h"
  by (simp_all add: whiteImage_def)

lemma white_channel: "i < 4 * w * h \<Longrightarrow> channel (whiteImage w h) i = 255"
  by (simp add: channel_def whiteImage_def)

lemma white_wellFormed: "wellFormed (whiteImage w h)"
  by (simp add: wellFormed_def whiteImage_def)

lemma est33: "estimatedCount DEFAULT_SETTINGS (whiteImage 3 3) = 3"
  by (simp add: estimatedCount_def step_default white_fields Let_def default_fields)

lemma stride_2_0_3: "stride 2 0 3 = [0, 2]"
  by (simp add: stride.simps)

lemma visited33: "visited DEFAULT_SETTINGS (whiteImage 3 3) = [(0, 0), (2, 0), (0, 2), (2, 2)]"
  by (simp add: visited_def step_default white_fields stride_2_0_3)

lemma passes33:
  assumes "x < 3" and "y < 3"
  shows "passes DEFAULT_SETTINGS (whiteImage 3 3) (x, y)"
proof -
  have "(y * 3 + x) * 4 + 3 < 4 * 3 * 3" using assms by simp
  then have "channel (whiteImage 3 3) ((y * 3 + x) * 4) = 255"
    "channel (whiteImage 3 3) ((y * 3 + x) * 4 + 1) = 255"
    "channel (whiteImage 3 3) ((y * 3 + x) * 4 + 2) = 255"
    "channel (whiteImage 3 3) ((y * 3 + x) * 4 + 3) = 255"
    by (simp_all add: white_channel)
  then show ?thesis
    by (simp add: passes_def pixelBrightness_def white_fields default_fields)
qed

lemma accepted33: "accepted DEFAULT_SETTINGS (whiteImage 3 3) = [(0, 0), (2, 0), (0, 2)]"
  by (simp add: accepted_def est33 visited33 passes33)

lemma depth_white_default: "depthValue DEFAULT_SETTINGS (whiteImage 3 3) x y 255 255 255 = 400"
  by (simp add: depthValue_def default_fields Let_def)

subsection \<open>Cap and alignment\<close>

text \<open>
  Claim C1. A valid configuration gives a positive number of particles as its maximum
  (the application passes 200000; the guard of line 63 takes zero or less for no cap at
  all). For every image of well-formed pixel data and every such configuration the
  sampler returns at most \<open>maxParticles\<close> particles, and the three arrays are aligned:
  \<open>positions\<close> and \<open>colors\<close> have three entries for each particle, \<open>sizes\<close> has one,
  and the entries of particle \<open>i\<close> in all three arrays are those of one and the same
  pixel, the \<open>i\<close>-th accepted one.
\<close>

theorem sampler_cap_and_alignment:
  assumes "wellFormed img" and "0 < maxParticles settings"
  shows "processImage (Some img) settings = Inr (sampleImage img settings)
       \<and> int (count (sampleImage img settings)) \<le> maxParticles settings
       \<and> length (positions (sampleImage img settings)) = 3 * count (sampleImage img settings)
       \<and> length (colors (sampleImage img settings)) = 3 * count (sampleImage img settings)
       \<and> length (sizes (sampleImage img settings)) = count (sampleImage img settings)
       \<and> (\<forall>i < count (sampleImage img settings).
             take 3 (drop (3 * i) (positions (sampleImage img settings)))
               = particlePosition settings img (accepted settings img ! i)
           \<and> take 3 (drop (3 * i) (colors (sampleImage img settings)))
               = particleColor img (accepted settings img ! i)
           \<and> sizes (sampleImage img settings) ! i
               = particleSize img (accepted settings img ! i))"
proof -
  have cap: "int (count (sampleImage img settings)) \<le> maxParticles settings"
    using count_le_estimate [of img settings] estimate_le_cap [OF assms(2), of img]
    by linarith
  have lens: "length (positions (sampleImage img settings)) = 3 * count (sampleImage img settings)"
    "length (colors (sampleImage img settings)) = 3 * count (sampleImage img settings)"
    "length (sizes (sampleImage img settings)) = count (sampleImage img settings)"
    by (simp_all add: sample_accepted concat_triples_length particlePosition_length
        particleColor_length)
  have al: "take 3 (drop (3 * i) (positions (sampleImage img settings)))
               = particlePosition settings img (accepted settings img ! i)
           \<and> take 3 (drop (3 * i) (colors (sampleImage img settings)))
               = particleColor img (accepted settings img ! i)
           \<and> sizes (sampleImage img settings) ! i
               = particleSize img (accepted settings img ! i)"
    if "i < count (sampleImage img settings)" for i
  proof -
    have i: "i < length (accepted settings img)"
      using that by (simp add: sample_accepted)
    show ?thesis
      using i
      by (simp add: sample_accepted concat_triples_take particlePosition_length
          particleColor_length)
  qed
  show ?thesis
    using cap lens al by (simp add: processImage_def)
qed

theorem sampler_cap_and_alignment_witness:
  "wellFormed (whiteImage 3 3) \<and> 0 < maxParticles DEFAULT_SETTINGS
     \<and> processImage (Some (whiteImage 3 3)) DEFAULT_SETTINGS
         = Inr (sampleImage (whiteImage 3 3) DEFAULT_SETTINGS)
     \<and> count (sampleImage (whiteImage 3 3) DEFAULT_SETTINGS) = 3
     \<and> int (count (sampleImage (whiteImage 3 3) DEFAULT_SETTINGS))
         \<le> maxParticles DEFAULT_SETTINGS
     \<and> length (positions (sampleImage (whiteImage 3 3) DEFAULT_SETTINGS)) = 9
     \<and> length (colors (sampleImage (whiteImage 3 3) DEFAULT_SETTINGS)) = 9
     \<and> length (sizes (sampleImage (whiteImage 3 3) DEFAULT_SETTINGS)) = 3
     \<and> take 3 (drop (3 * 1) (positions (sampleImage (whiteImage 3 3) DEFAULT_SETTINGS)))
         = [1 / 2, 3 / 2, 400]
     \<and> take 3 (drop (3 * 1) (colors (sampleImage (whiteImage 3 3) DEFAULT_SETTINGS)))
         = [1, 1, 1]
     \<and> sizes (sampleImage (whiteImage 3 3) DEFAULT_SETTINGS) ! 1 = 1"
proof -
  have c: "count (sampleImage (whiteImage 3 3) DEFAULT_SETTINGS) = 3"
    by (simp add: sample_accepted accepted33)
  have m: "0 < maxParticles DEFAULT_SETTINGS"
    by (simp add: default_fields)
  have ch: "channel (whiteImage 3 3) 8 = 255" "channel (whiteImage 3 3) 9 = 255"
    "channel (whiteImage 3 3) 10 = 255"
    by (simp_all add: white_channel)
  have p: "particlePosition DEFAULT_SETTINGS (whiteImage 3 3) (2, 0) = [1 / 2, 3 / 2, 400]"
    by (simp add: particlePosition_def white_fields ch depth_white_default)
  have q: "particleColor (whiteImage 3 3) (2, 0) = [1, 1, 1]"
    by (simp add: particleColor_def white_fields ch)
  have r: "particleSize (whiteImage 3 3) (2, 0) = 1"
    by (simp add: particleSize_def pixelBrightness_def white_fields ch)
  note T = sampler_cap_and_alignment
      [where img = "whiteImage 3 3" and settings = DEFAULT_SETTINGS, OF white_wellFormed m]
  note A = T [THEN conjunct2, THEN conjunct2, THEN conjunct2, THEN conjunct2, THEN conjunct2,
      rule_format, of 1]
  have "1 < count (sampleImage (whiteImage 3 3) DEFAULT_SETTINGS)"
    using c by simp
  from A [OF this] show ?thesis
    using T c m white_wellFormed [of 3 3] p q r by (simp add: accepted33)
qed

subsection \<open>Count of the particles\<close>

text \<open>
  Claim C4 says that the sampler returns as many particles as visited pixels pass the
  filter, or the configured maximum if that is smaller. The code allocates its buffers
  for \<open>ceil (width * height / step\<^sup>2)\<close> particles and stops at that number, which is
  below the number of visited pixels when the stride does not divide the width or the
  height. For the image of 3 by 3 opaque white pixels and the default settings (stride
  2, threshold 30, maximum 200000) the four visited pixels all pass, the buffers hold
  three particles, and the sampler returns three.
\<close>

theorem sampler_drops_passing_pixel:
  "wellFormed (whiteImage 3 3)
     \<and> maxParticles DEFAULT_SETTINGS = 200000
     \<and> visited DEFAULT_SETTINGS (whiteImage 3 3) = [(0, 0), (2, 0), (0, 2), (2, 2)]
     \<and> length (filter (passes DEFAULT_SETTINGS (whiteImage 3 3))
                 (visited DEFAULT_SETTINGS (whiteImage 3 3))) = 4
     \<and> estimatedCount DEFAULT_SETTINGS (whiteImage 3 3) = 3
     \<and> processImage (Some (whiteImage 3 3)) DEFAULT_SETTINGS
         = Inr (sampleImage (whiteImage 3 3) DEFAULT_SETTINGS)
     \<and> count (sampleImage (whiteImage 3 3) DEFAULT_SETTINGS) = 3"
  by (simp add: sample_accepted accepted_def est33 visited33 passes33 default_fields
      white_wellFormed processImage_def)

subsection \<open>Brightness and inverse brightness\<close>

lemma accepted_depthMode:
  "accepted (settings \<lparr> depthMode := m \<rparr>) img = accepted settings img"
proof -
  have p: "passes (settings \<lparr> depthMode := m \<rparr>) img = passes settings img"
    by (rule ext) (simp add: passes_def)
  have s: "step (settings \<lparr> depthMode := m \<rparr>) = step settings"
    by (simp add: step_def)
  have e: "estimatedCount (settings \<lparr> depthMode := m \<rparr>) img = estimatedCount settings img"
    by (simp add: estimatedCount_def s Let_def)
  have v: "visited (settings \<lparr> depthMode := m \<rparr>) img = visited settings img"
    by (simp add: visited_def s)
  show ?thesis
    by (simp only: accepted_def p e v)
qed

lemma depth_complement:
  assumes "\<not> depthInvert settings"
  shows "depthValue (settings \<lparr> depthMode := InverseBrightness \<rparr>) img x y r g b
           = depthRange settings
             - depthValue (settings \<lparr> depthMode := Brightness \<rparr>) img x y r g b"
  using assms by (simp add: depthValue_def Let_def algebra_simps)

lemma position_z: "i < length ps \<Longrightarrow>
    concat (map (particlePosition settings img) ps) ! (3 * i + 2)
      = particlePosition settings img (ps ! i) ! 2"
proof -
  assume i: "i < length ps"
  let ?L = "concat (map (particlePosition settings img) ps)"
  have len: "length ?L = 3 * length ps"
    by (simp add: concat_triples_length particlePosition_length)
  have "take 3 (drop (3 * i) ?L) ! 2 = ?L ! (3 * i + 2)"
    using i len by simp
  moreover have "take 3 (drop (3 * i) ?L) = particlePosition settings img (ps ! i)"
    using i by (simp add: concat_triples_take particlePosition_length)
  ultimately show ?thesis by simp
qed

text \<open>
  Claim C7. With the invert flag off, for every pixel (its place and its colour) of an
  image of well-formed pixel data and every depth range, the depth under \<open>InverseBrightness\<close> is the range minus the depth
  under \<open>Brightness\<close>. The two modes accept the same pixels, so the same holds for the z
  entry of every particle of the two results.
\<close>

theorem inverse_brightness_complements_brightness:
  assumes "wellFormed img" and "\<not> depthInvert settings"
  shows "depthValue (settings \<lparr> depthMode := InverseBrightness \<rparr>) img x y r g b
           = depthRange settings
             - depthValue (settings \<lparr> depthMode := Brightness \<rparr>) img x y r g b
       \<and> count (sampleImage img (settings \<lparr> depthMode := InverseBrightness \<rparr>))
           = count (sampleImage img (settings \<lparr> depthMode := Brightness \<rparr>))
       \<and> (\<forall>i < count (sampleImage img (settings \<lparr> depthMode := Brightness \<rparr>)).
             positions (sampleImage img (settings \<lparr> depthMode := InverseBrightness \<rparr>))
                 ! (3 * i + 2)
               = depthRange settings
                 - positions (sampleImage img (settings \<lparr> depthMode := Brightness \<rparr>))
                     ! (3 * i + 2))"
proof -
  have z: "particlePosition (settings \<lparr> depthMode := InverseBrightness \<rparr>) img p ! 2
      = depthRange settings - particlePosition (settings \<lparr> depthMode := Brightness \<rparr>) img p ! 2"
    for p
    by (cases p) (simp add: particlePosition_def depth_complement [OF assms(2)])
  have pz: "positions (sampleImage img (settings \<lparr> depthMode := InverseBrightness \<rparr>))
          ! (3 * i + 2)
      = depthRange settings
        - positions (sampleImage img (settings \<lparr> depthMode := Brightness \<rparr>)) ! (3 * i + 2)"
    if "i < count (sampleImage img (settings \<lparr> depthMode := Brightness \<rparr>))" for i
  proof -
    have i: "i < length (accepted settings img)"
      using that by (simp add: sample_accepted accepted_depthMode)
    have "positions (sampleImage img (settings \<lparr> depthMode := m \<rparr>)) ! (3 * i + 2)
        = particlePosition (settings \<lparr> depthMode := m \<rparr>) img (accepted settings img ! i) ! 2"
      for m
      using position_z [OF i, of "settings \<lparr> depthMode := m \<rparr>" img]
      by (simp only: sample_accepted accepted_depthMode ProcessedData.simps)
    then show ?thesis by (simp only: z)
  qed
  have cnt: "count (sampleImage img (settings \<lparr> depthMode := InverseBrightness \<rparr>))
           = count (sampleImage img (settings \<lparr> depthMode := Brightness \<rparr>))"
    by (simp add: sample_accepted accepted_depthMode)
  show ?thesis
    using depth_complement [OF assms(2), of img x y r g b] cnt pz by blast
qed

theorem inverse_brightness_complements_brightness_witness:
  "wellFormed (whiteImage 3 3) \<and> \<not> depthInvert DEFAULT_SETTINGS
     \<and> depthRange DEFAULT_SETTINGS = 400
     \<and> depthValue (DEFAULT_SETTINGS \<lparr> depthMode := Brightness \<rparr>) (whiteImage 3 3) 0 0 255 0 0
         = 119.6
     \<and> depthValue (DEFAULT_SETTINGS \<lparr> depthMode := InverseBrightness \<rparr>) (whiteImage 3 3)
           0 0 255 0 0 = 400 - 119.6
     \<and> count (sampleImage (whiteImage 3 3) (DEFAULT_SETTINGS \<lparr> depthMode := Brightness \<rparr>)) = 3
     \<and> positions (sampleImage (whiteImage 3 3) (DEFAULT_SETTINGS \<lparr> depthMode := Brightness \<rparr>))
           ! (3 * 1 + 2) = 400
     \<and> positions (sampleImage (whiteImage 3 3)
           (DEFAULT_SETTINGS \<lparr> depthMode := InverseBrightness \<rparr>)) ! (3 * 1 + 2) = 0"
proof -
  let ?b = "DEFAULT_SETTINGS \<lparr> depthMode := Brightness \<rparr>"
  have i: "\<not> depthInvert DEFAULT_SETTINGS"
    by (simp add: default_fields)
  have b: "depthValue ?b (whiteImage 3 3) 0 0 255 0 0 = 119.6"
    by (simp add: depthValue_def default_fields Let_def)
  have a: "accepted ?b (whiteImage 3 3) = [(0, 0), (2, 0), (0, 2)]"
    by (simp add: accepted_depthMode accepted33)
  have c: "count (sampleImage (whiteImage 3 3) ?b) = 3"
    by (simp add: sample_accepted a)
  have ch: "channel (whiteImage 3 3) 8 = 255" "channel (whiteImage 3 3) 9 = 255"
    "channel (whiteImage 3 3) 10 = 255"
    by (simp_all add: white_channel)
  have "particlePosition ?b (whiteImage 3 3) (2, 0) = [1 / 2, 3 / 2, 400]"
    by (simp add: particlePosition_def white_fields ch depthValue_def default_fields Let_def)
  then have z: "positions (sampleImage (whiteImage 3 3) ?b) ! (3 * 1 + 2) = 400"
    by (simp add: sample_accepted a particlePosition_def)
  note T = inverse_brightness_complements_brightness
      [where img = "whiteImage 3 3" and settings = DEFAULT_SETTINGS
         and x = 0 and y = 0 and r = 255 and g = 0 and b = 0, OF white_wellFormed i]
  note A = T [THEN conjunct2, THEN conjunct2, rule_format, of 1]
  have "1 < count (sampleImage (whiteImage 3 3) ?b)"
    using c by simp
  from A [OF this] show ?thesis
    using T i b c z white_wellFormed [of 3 3] by (simp add: default_fields)
qed

section \<open>The per-particle transform\<close>












subsection \<open>No hidden state\<close>

lemma baseStep_same:
  assumes "sameInputs u1 u2"
  shows "sameParticle (baseStep u1 st1) (baseStep u2 st2)"
  using assms by (simp add: sameInputs_def sameParticle_def baseStep_def Let_def)

lemma ambientStep_same:
  assumes "sameInputs u1 u2" and "sameParticle st1 st2"
  shows "sameParticle (ambientStep u1 st1) (ambientStep u2 st2)"
  using assms by (simp add: sameInputs_def sameParticle_def ambientStep_def Let_def)

lemma explosionStep_same:
  assumes "sameInputs u1 u2" and "sameParticle st1 st2"
  shows "sameParticle (explosionStep u1 st1) (explosionStep u2 st2)"
  using assms by (simp add: sameInputs_def sameParticle_def explosionStep_def Let_def)

lemma flattenStep_same:
  assumes "sameInputs u1 u2" and "sameParticle st1 st2"
  shows "sameParticle (flattenStep u1 st1) (flattenStep u2 st2)"
  using assms by (simp add: sameInputs_def sameParticle_def flattenStep_def)

lemma vortexStep_same:
  assumes "sameInputs u1 u2" and "sameParticle st1 st2"
  shows "sameParticle (vortexStep u1 r st1) (vortexStep u2 r st2)"
  using assms by (simp add: sameInputs_def sameParticle_def vortexStep_def Let_def)

lemma jetStep_same:
  assumes "sameInputs u1 u2" and "sameParticle st1 st2"
  shows "sameParticle (jetStep u1 r st1) (jetStep u2 r st2)"
  using assms by (simp add: sameInputs_def sameParticle_def jetStep_def Let_def)

lemma blackHoleStep_same:
  assumes "sameInputs u1 u2" and "sameParticle st1 st2"
  shows "sameParticle (blackHoleStep u1 st1) (blackHoleStep u2 st2)"
proof -
  have f: "sameParticle (flattenStep u1 st1) (flattenStep u2 st2)"
    using assms by (rule flattenStep_same)
  then have r: "length2 (vec2 (v3x (pos (flattenStep u1 st1))) (v3y (pos (flattenStep u1 st1))))
      = length2 (vec2 (v3x (pos (flattenStep u2 st2))) (v3y (pos (flattenStep u2 st2))))"
    by (simp add: sameParticle_def)
  have h: "uBlackHole u1 = uBlackHole u2"
    using assms(1) by (simp add: sameInputs_def)
  show ?thesis
    unfolding blackHoleStep_def Let_def r h
    using assms(2) jetStep_same [OF assms(1) vortexStep_same [OF assms(1) f]] by simp
qed

lemma handStep_same:
  assumes "sameInputs u1 u2" and "sameParticle st1 st2"
  shows "sameParticle (handStep u1 st1) (handStep u2 st2)"
  using assms by (simp add: sameInputs_def sameParticle_def handStep_def Let_def)

lemma outputStep_keeps:
  "sameParticle (outputStep u st) st" "vDepth (outputStep u st) = v3z (pos st)"
  by (simp_all add: sameParticle_def outputStep_def Let_def)

text \<open>
  Claim C9. The final position, the size multiplier and the colour (and the depth
  handed to the fragment shader) that one invocation of the transform computes are
  determined by its inputs: by the base position and colour, the two blend factors, the
  time, the interaction point with its active flag, and the interaction radius and
  strength. Two invocations that agree in these compute the same outputs, whatever the
  state left by earlier invocations and whatever the other uniforms and attributes.
\<close>

theorem vertex_transform_pure:
  assumes "sameInputs u1 u2"
  shows "pos (main u1 st1) = pos (main u2 st2)
       \<and> extraSize (main u1 st1) = extraSize (main u2 st2)
       \<and> vColor (main u1 st1) = vColor (main u2 st2)
       \<and> vDepth (main u1 st1) = vDepth (main u2 st2)"
proof -
  let ?a = "handStep u1 (blackHoleStep u1 (explosionStep u1 (ambientStep u1 (baseStep u1 st1))))"
  let ?b = "handStep u2 (blackHoleStep u2 (explosionStep u2 (ambientStep u2 (baseStep u2 st2))))"
  have "sameParticle ?a ?b"
    by (intro handStep_same blackHoleStep_same explosionStep_same ambientStep_same
        baseStep_same assms)
  moreover have "sameParticle (main u1 st1) ?a" "sameParticle (main u2 st2) ?b"
    by (simp_all add: main_def outputStep_keeps)
  moreover have "vDepth (main u1 st1) = v3z (pos ?a)" "vDepth (main u2 st2) = v3z (pos ?b)"
    by (simp_all add: main_def outputStep_keeps)
  ultimately show ?thesis
    by (simp add: sameParticle_def)
qed

theorem vertex_transform_pure_witness:
  "sameInputs (fistInput (vec3 200 0 0)) (otherInput (vec3 200 0 0))
     \<and> pos (main (fistInput (vec3 200 0 0)) blankState)
         = pos (main (otherInput (vec3 200 0 0)) usedState)
     \<and> extraSize (main (fistInput (vec3 200 0 0)) blankState)
         = extraSize (main (otherInput (vec3 200 0 0)) usedState)
     \<and> vColor (main (fistInput (vec3 200 0 0)) blankState)
         = vColor (main (otherInput (vec3 200 0 0)) usedState)
     \<and> vDepth (main (fistInput (vec3 200 0 0)) blankState)
         = vDepth (main (otherInput (vec3 200 0 0)) usedState)
     \<and> blankState \<noteq> usedState
     \<and> uSize (fistInput (vec3 200 0 0)) \<noteq> uSize (otherInput (vec3 200 0 0))"
proof -
  have s: "sameInputs (fistInput (vec3 200 0 0)) (otherInput (vec3 200 0 0))"
    by (simp add: sameInputs_def otherInput_def)
  have d: "blankState \<noteq> usedState"
    by (simp add: blankState_def usedState_def)
  have e: "uSize (fistInput (vec3 200 0 0)) \<noteq> uSize (otherInput (vec3 200 0 0))"
    by (simp add: fistInput_def otherInput_def)
  show ?thesis
    using vertex_transform_pure [OF s, of blankState usedState] s d e by simp
qed

end
